theory Spec2Isabelle
  imports Main "HOL-Library.Sublist"
begin

section \<open>Values of the Go program\<close>

text \<open>
  The program is \<^verbatim>\<open>general/project/projectinit.go\<close>: the \<^verbatim>\<open>project init\<close> command.
  A Go \<^verbatim>\<open>string\<close> is a byte sequence, here a \<^typ>\<open>string\<close>. A Go \<^verbatim>\<open>error\<close> is
  an opaque value; \<^verbatim>\<open>nil\<close> is \<^term>\<open>None\<close> of \<^typ>\<open>'a option\<close>.
  \<^verbatim>\<open>coreutils.Technology\<close> is a string type (the source converts it with
  \<^verbatim>\<open>string(tech)\<close>), so every string is a value of it.
\<close>

datatype error = Error string

type_synonym Technology = string

record ProjectInitCommand =
  projectPath :: string
  serverId :: string

record BuildConfigFile =
  Version :: int
  ConfigType :: string
  BuildName :: string

text \<open>
  \<^verbatim>\<open>artifactoryUtils.Repository\<close> and \<^verbatim>\<open>artifactoryCommandsUtils.ConfigFile\<close> are
  declared outside the source file. The records have the fields the source file
  assigns; a field that is never assigned keeps Go's zero value, the empty string.
  The fields \<^verbatim>\<open>Version\<close> and \<^verbatim>\<open>ConfigType\<close> of \<^verbatim>\<open>ConfigFile\<close> are named
  \<open>ConfVersion\<close> and \<open>ConfType\<close> here, the names being taken by \<open>BuildConfigFile\<close>.
\<close>

record Repository =
  ServerId :: string
  Repo :: string
  ReleaseRepo :: string
  SnapshotRepo :: string

record ConfigFile =
  ConfVersion :: int
  ConfType :: string
  Resolver :: Repository
  Deployer :: Repository

definition zeroRepository :: Repository where
  "zeroRepository = \<lparr>ServerId = [], Repo = [], ReleaseRepo = [], SnapshotRepo = []\<rparr>"

subsection \<open>Declarations the source file imports\<close>

text \<open>
  The technology constants, the default repository names, the version constant and the
  pure library functions the file calls are declared elsewhere.  They are parameters of
  the model, collected in one record: nothing is assumed about their values but what a
  theorem states.
\<close>

record decls =
  Maven :: Technology
  Gradle :: Technology
  Npm :: Technology
  Go :: Technology
  Pip :: Technology
  Pipenv :: Technology
  MavenVirtualDefaultName :: string
  GradleVirtualDefaultName :: string
  NpmVirtualDefaultName :: string
  GoVirtualDefaultName :: string
  PypiVirtualDefaultName :: string
  BuildConfVersion :: int
  ToLower :: "string \<Rightarrow> string"
  MarshalBuildConfigFile :: "BuildConfigFile \<Rightarrow> error + string"
  MarshalConfigFile :: "ConfigFile \<Rightarrow> error + string"
  CheckError :: "error option \<Rightarrow> error option"
  PrintBold :: "string \<Rightarrow> string"
  PrintTitle :: "string \<Rightarrow> string"
  PrintLink :: "string \<Rightarrow> string"
  PrintComment :: "string \<Rightarrow> string"
  GettingStartedGuideUrl :: string
  GetFeedbackMessage :: string

subsection \<open>Calls to the outside and their outcomes\<close>

text \<open>
  Every call that leaves the file (configuration lookup, detection, repository
  provisioning, the file system, standard output) is recorded, in order, in a trace.
  What a call returns is decided by the environment, which may depend on everything
  that happened before: it is a function of the trace up to and including the call.
  \<open>WriteFile\<close> carries the path, the bytes and the permission bits (the source passes
  octal 0644, which is 420).
\<close>

datatype call =
    GetSpecificConfig string bool bool
  | DetectTechnologies string bool bool
  | CreateDefaultLocalRepo Technology string
  | CreateDefaultRemoteRepo Technology string
  | CreateDefaultVirtualRepo Technology string
  | CreateDirIfNotExist string
  | WriteFile string string nat
  | Println
  | PrintTable string string string

record extern =
  defaultServer :: "call list \<Rightarrow> error + string"
  detected :: "call list \<Rightarrow> error + Technology list"
  outcome :: "call list \<Rightarrow> error option"

definition invoke :: "extern \<Rightarrow> call \<Rightarrow> call list \<Rightarrow> error option \<times> call list" where
  "invoke E c h = (outcome E (h @ [c]), h @ [c])"

section \<open>path/filepath on a Unix target\<close>

text \<open>
  \<^verbatim>\<open>filepath.Clean\<close>, \<^verbatim>\<open>Dir\<close>, \<^verbatim>\<open>Base\<close> and \<^verbatim>\<open>Join\<close> of Go's standard
  library, for a target whose separator is the slash and that has no volume names.
  \<^verbatim>\<open>Clean\<close> keeps an output buffer \<open>out\<close> and the index \<open>dotdot\<close> below which
  a \<^verbatim>\<open>..\<close> element must not remove anything.
\<close>

definition IsPathSeparator :: "char \<Rightarrow> bool" where
  "IsPathSeparator c = (c = CHR ''/'')"

function backtrack :: "string \<Rightarrow> nat \<Rightarrow> nat \<Rightarrow> nat" where
  "backtrack buf dotdot w =
     (if w > dotdot \<and> \<not> IsPathSeparator (buf ! w) then backtrack buf dotdot (w - 1) else w)"
  by pat_completeness auto
termination
  by (relation "measure (\<lambda>(buf, dotdot, w). w)") auto

declare backtrack.simps [simp del]

function cleanLoop :: "bool \<Rightarrow> string \<Rightarrow> string \<Rightarrow> nat \<Rightarrow> string" where
  "cleanLoop rooted [] out dotdot = out"
| "cleanLoop rooted (c # rest) out dotdot =
     (if IsPathSeparator c then cleanLoop rooted rest out dotdot
      else if c = CHR ''.'' \<and> (rest = [] \<or> IsPathSeparator (hd rest)) then
        cleanLoop rooted rest out dotdot
      else if c = CHR ''.'' \<and> hd rest = CHR ''.'' \<and>
              (tl rest = [] \<or> IsPathSeparator (hd (tl rest))) then
        (if length out > dotdot then
           cleanLoop rooted (tl rest) (take (backtrack out dotdot (length out - 1)) out) dotdot
         else if \<not> rooted then
           (let out' = (if length out > 0 then out @ ''/'' else out) @ ''..''
            in cleanLoop rooted (tl rest) out' (length out'))
         else cleanLoop rooted (tl rest) out dotdot)
      else
        (let out' = (if rooted \<and> length out \<noteq> 1 \<or> \<not> rooted \<and> length out \<noteq> 0
                     then out @ ''/'' else out)
         in cleanLoop rooted (dropWhile (\<lambda>x. \<not> IsPathSeparator x) (c # rest))
              (out' @ takeWhile (\<lambda>x. \<not> IsPathSeparator x) (c # rest)) dotdot))"
  by pat_completeness auto
termination
proof (relation "measure (\<lambda>(rooted, path, out, dotdot). length path)", goal_cases)
  case (7 rooted c rest out dotdot x)
  have "length (dropWhile (\<lambda>x. \<not> IsPathSeparator x) rest) \<le> length rest"
    by (rule length_dropWhile_le)
  with 7 show ?case by simp
qed simp_all

definition Clean :: "string \<Rightarrow> string" where
  "Clean path =
     (if path = [] then ''.''
      else
        (let rooted = IsPathSeparator (hd path);
             out = (if rooted then cleanLoop rooted (tl path) ''/'' 1
                    else cleanLoop rooted path [] 0)
         in if out = [] then ''.'' else out))"

definition Dir :: "string \<Rightarrow> string" where
  "Dir path = Clean (rev (dropWhile (\<lambda>c. \<not> IsPathSeparator c) (rev path)))"

definition Base :: "string \<Rightarrow> string" where
  "Base path =
     (if path = [] then ''.''
      else
        (let stripped = rev (dropWhile IsPathSeparator (rev path));
             elem = rev (takeWhile (\<lambda>c. \<not> IsPathSeparator c) (rev stripped))
         in if elem = [] then ''/'' else elem))"

fun strings_Join :: "string list \<Rightarrow> string \<Rightarrow> string" where
  "strings_Join [] sep = []"
| "strings_Join [e] sep = e"
| "strings_Join (e # es) sep = e @ sep @ strings_Join es sep"

fun Join :: "string list \<Rightarrow> string" where
  "Join [] = []"
| "Join (e # es) = (if e \<noteq> [] then Clean (strings_Join (e # es) ''/'') else Join es)"

section \<open>The project init command\<close>

definition buildFileName :: string where
  "buildFileName = ''build.yaml''"

subsection \<open>detectTechnologies\<close>

text \<open>
  The Go map \<^verbatim>\<open>map[coreutils.Technology]bool\<close> is modelled by the list of its keys,
  in the order in which the \<^verbatim>\<open>range\<close> of \<^verbatim>\<open>Run\<close> visits them; the source never
  reads the values.  Go fixes no iteration order: a theorem about every list is a theorem
  about every order.  The \<^verbatim>\<open>range\<close> of \<^verbatim>\<open>createBuildMessage\<close> may visit the keys
  in another order; only the order of the lines of the printed summary depends on it,
  and the model lets it follow the same list.
\<close>

definition detectTechnologies ::
    "extern \<Rightarrow> ProjectInitCommand \<Rightarrow> call list \<Rightarrow> (error + Technology list) \<times> call list" where
  "detectTechnologies E pic h =
     (let h1 = h @ [DetectTechnologies (projectPath pic) False False] in
      case detected E h1 of
        Inl err \<Rightarrow> (Inl err, h1)
      | Inr technologiesMap \<Rightarrow>
          if length technologiesMap = 0 then
            (let h2 = h1 @ [DetectTechnologies (projectPath pic) False True] in
             case detected E h2 of
               Inl err \<Rightarrow> (Inl err, h2)
             | Inr technologiesMap' \<Rightarrow> (Inr technologiesMap', h2))
          else (Inr technologiesMap, h1))"

subsection \<open>createBuildConfig\<close>

definition buildConfigFile :: "ProjectInitCommand \<Rightarrow> BuildConfigFile" where
  "buildConfigFile pic =
     (let projectDirName = Base (Dir (projectPath pic))
      in \<lparr>Version = 1, ConfigType = ''build'', BuildName = projectDirName\<rparr>)"

definition createBuildConfig ::
    "extern \<Rightarrow> decls \<Rightarrow> ProjectInitCommand \<Rightarrow> call list \<Rightarrow> error option \<times> call list" where
  "createBuildConfig E d pic h =
     (let jfrogProjectDir = Join [projectPath pic, ''.jfrog'', ''projects''] in
      case invoke E (CreateDirIfNotExist jfrogProjectDir) h of
        (Some err, h1) \<Rightarrow> (CheckError d (Some err), h1)
      | (None, h1) \<Rightarrow>
          (let configFilePath = Join [jfrogProjectDir, buildFileName] in
           case MarshalBuildConfigFile d (buildConfigFile pic) of
             Inl err \<Rightarrow> (CheckError d (Some err), h1)
           | Inr resBytes \<Rightarrow>
               (case invoke E (WriteFile configFilePath resBytes 420) h1 of
                  (res, h2) \<Rightarrow> (CheckError d res, h2))))"

subsection \<open>createDefaultReposIfNeeded\<close>

definition createDefaultReposIfNeeded ::
    "extern \<Rightarrow> Technology \<Rightarrow> string \<Rightarrow> call list \<Rightarrow> error option \<times> call list" where
  "createDefaultReposIfNeeded E tech sid h =
     (case invoke E (CreateDefaultLocalRepo tech sid) h of
        (Some err, h1) \<Rightarrow> (Some err, h1)
      | (None, h1) \<Rightarrow>
          (case invoke E (CreateDefaultRemoteRepo tech sid) h1 of
             (Some err, h2) \<Rightarrow> (Some err, h2)
           | (None, h2) \<Rightarrow> invoke E (CreateDefaultVirtualRepo tech sid) h2))"

subsection \<open>createProjectBuildConfigs\<close>

text \<open>
  \<open>configFile\<close> is the local variable of that name as it stands when it is handed to
  \<^verbatim>\<open>yaml.Marshal\<close>: the struct literal, the two \<^verbatim>\<open>Repository\<close> assignments and the
  switch over the technology, whose cases are tried in the order of the source
  (\<^verbatim>\<open>Pipenv\<close> falls through to \<^verbatim>\<open>Pip\<close>).
\<close>

definition configFile :: "decls \<Rightarrow> Technology \<Rightarrow> string \<Rightarrow> ConfigFile" where
  "configFile d tech sid =
     (let techName = ToLower d tech;
          c0 = \<lparr>ConfVersion = BuildConfVersion d, ConfType = techName,
                Resolver = zeroRepository, Deployer = zeroRepository\<rparr>;
          c1 = c0\<lparr>Resolver := zeroRepository\<lparr>ServerId := sid\<rparr>\<rparr>;
          c2 = c1\<lparr>Deployer := zeroRepository\<lparr>ServerId := sid\<rparr>\<rparr>
      in if tech = Maven d then
           c2\<lparr>Resolver := (Resolver c2)\<lparr>ReleaseRepo := MavenVirtualDefaultName d,
                                          SnapshotRepo := MavenVirtualDefaultName d\<rparr>,
               Deployer := (Deployer c2)\<lparr>ReleaseRepo := MavenVirtualDefaultName d,
                                          SnapshotRepo := MavenVirtualDefaultName d\<rparr>\<rparr>
         else if tech = Gradle d then
           c2\<lparr>Resolver := (Resolver c2)\<lparr>Repo := GradleVirtualDefaultName d\<rparr>,
               Deployer := (Deployer c2)\<lparr>Repo := GradleVirtualDefaultName d\<rparr>\<rparr>
         else if tech = Npm d then
           c2\<lparr>Resolver := (Resolver c2)\<lparr>Repo := NpmVirtualDefaultName d\<rparr>,
               Deployer := (Deployer c2)\<lparr>Repo := NpmVirtualDefaultName d\<rparr>\<rparr>
         else if tech = Go d then
           c2\<lparr>Resolver := (Resolver c2)\<lparr>Repo := GoVirtualDefaultName d\<rparr>,
               Deployer := (Deployer c2)\<lparr>Repo := GoVirtualDefaultName d\<rparr>\<rparr>
         else if tech = Pipenv d \<or> tech = Pip d then
           c2\<lparr>Resolver := (Resolver c2)\<lparr>Repo := PypiVirtualDefaultName d\<rparr>,
               Deployer := (Deployer c2)\<lparr>Repo := PypiVirtualDefaultName d\<rparr>\<rparr>
         else c2)"

definition createProjectBuildConfigs ::
    "extern \<Rightarrow> decls \<Rightarrow> Technology \<Rightarrow> string \<Rightarrow> string \<Rightarrow> call list
      \<Rightarrow> error option \<times> call list" where
  "createProjectBuildConfigs E d tech path sid h =
     (let jfrogProjectDir = Join [path, ''.jfrog'', ''projects''] in
      case invoke E (CreateDirIfNotExist jfrogProjectDir) h of
        (Some err, h1) \<Rightarrow> (CheckError d (Some err), h1)
      | (None, h1) \<Rightarrow>
          (let techName = ToLower d tech;
               configFilePath = Join [jfrogProjectDir, techName @ ''.yaml'']
           in case MarshalConfigFile d (configFile d tech sid) of
                Inl err \<Rightarrow> (CheckError d (Some err), h1)
              | Inr resBytes \<Rightarrow>
                  (case invoke E (WriteFile configFilePath resBytes 420) h1 of
                     (res, h2) \<Rightarrow> (CheckError d res, h2))))"

subsection \<open>createBuildMessage and createSummarizeMessage\<close>

definition newline :: string where
  "newline = [CHR 0x0A]"

definition buildCommands :: "decls \<Rightarrow> Technology \<Rightarrow> string" where
  "buildCommands d tech =
     (if tech = Maven d then ''jf mvn install deploy'' @ newline
      else if tech = Gradle d then ''jf gradle artifactoryP'' @ newline
      else if tech = Npm d then ''jf npm install'' @ newline @ ''jf npm publish'' @ newline
      else if tech = Go d then ''jf go build'' @ newline @ ''jf go-publish v1.0.0'' @ newline
      else if tech = Pip d then
        ''jf pip install'' @ newline @ ''jf rt u path/to/package/file default-pypi-local'' @
        PrintComment d '' # Publish your pip package'' @ newline
      else if tech = Pipenv d then
        ''jf pipenv install'' @ newline @ ''jf rt u path/to/package/file default-pypi-local'' @
        PrintComment d '' # Publish your pipenv package'' @ newline
      else [])"

definition createBuildMessage :: "decls \<Rightarrow> Technology list \<Rightarrow> string" where
  "createBuildMessage d technologiesMap =
     (let message = foldl (\<lambda>message tech. message @ buildCommands d tech) [] technologiesMap
      in if message \<noteq> [] then
           PrintTitle d ''Build the code & deploy the packages by running'' @ newline @
           message @ newline @
           PrintTitle d ''Publish the build-info to Artifactory'' @ newline @
           ''jf rt bp'' @ newline @ newline
         else message)"

definition createSummarizeMessage :: "decls \<Rightarrow> Technology list \<Rightarrow> string" where
  "createSummarizeMessage d technologiesMap =
     PrintBold d (''This project is initialized!'' @ newline) @
     PrintBold d ''The project config is stored inside the .jfrog directory.'' @
     newline @ newline @
     PrintTitle d ''Audit your project for security vulnerabilities by running'' @
     newline @
     ''jf audit'' @ newline @ newline @
     PrintTitle d
       ''Scan any software package on this machine for security vulnerabilities by running'' @
     newline @
     ''jf scan path/to/dir/or/package'' @ newline @ newline @
     PrintTitle d
       ''If you're using VS Code, IntelliJ IDEA, WebStorm, PyCharm, Android Studio or GoLand'' @
     newline @
     ''1. Open the IDE'' @ newline @
     ''2. Install the JFrog extension or plugin'' @ newline @
     ''3. View the JFrog panel'' @
     newline @ newline @
     createBuildMessage d technologiesMap @
     PrintTitle d ''Read more using this link:'' @
     newline @
     PrintLink d (GettingStartedGuideUrl d) @
     newline @ newline @
     GetFeedbackMessage d"

subsection \<open>Run\<close>

text \<open>
  The loop of \<^verbatim>\<open>Run\<close> over the detected technologies: the first error ends the loop
  and the run.
\<close>

fun forTechnologies ::
    "extern \<Rightarrow> decls \<Rightarrow> ProjectInitCommand \<Rightarrow> Technology list \<Rightarrow> call list
      \<Rightarrow> error option \<times> call list" where
  "forTechnologies E d pic [] h = (None, h)"
| "forTechnologies E d pic (techName # rest) h =
     (case createDefaultReposIfNeeded E techName (serverId pic) h of
        (Some err, h1) \<Rightarrow> (Some err, h1)
      | (None, h1) \<Rightarrow>
          (case createProjectBuildConfigs E d techName (projectPath pic) (serverId pic) h1 of
             (Some err, h2) \<Rightarrow> (Some err, h2)
           | (None, h2) \<Rightarrow> forTechnologies E d pic rest h2))"

text \<open>
  The first block of \<^verbatim>\<open>Run\<close>: a command without a server identifier takes the one
  of the configured default server, and fails when the lookup fails.
\<close>

definition resolveServerId ::
    "extern \<Rightarrow> ProjectInitCommand \<Rightarrow> call list
      \<Rightarrow> (error + ProjectInitCommand) \<times> call list" where
  "resolveServerId E pic h =
     (if serverId pic = [] then
        (let h0 = h @ [GetSpecificConfig [] True False] in
         case defaultServer E h0 of
           Inl err \<Rightarrow> (Inl err, h0)
         | Inr defaultServerId \<Rightarrow> (Inr (pic\<lparr>serverId := defaultServerId\<rparr>), h0))
      else (Inr pic, h))"

text \<open>
  \<^verbatim>\<open>Run\<close> returns its error, the command (whose \<^verbatim>\<open>serverId\<close> it may have set) and
  the trace.
\<close>

definition Run ::
    "extern \<Rightarrow> decls \<Rightarrow> ProjectInitCommand \<Rightarrow> call list
      \<Rightarrow> error option \<times> ProjectInitCommand \<times> call list" where
  "Run E d pic h =
     (case resolveServerId E pic h of
        (Inl err, h0) \<Rightarrow> (Some err, pic, h0)
      | (Inr pic1, h0) \<Rightarrow>
          (case detectTechnologies E pic1 h0 of
             (Inl err, h1) \<Rightarrow> (Some err, pic1, h1)
           | (Inr technologiesMap, h1) \<Rightarrow>
               (case forTechnologies E d pic1 technologiesMap h1 of
                  (Some err, h2) \<Rightarrow> (Some err, pic1, h2)
                | (None, h2) \<Rightarrow>
                    (case createBuildConfig E d pic1 h2 of
                       (Some err, h3) \<Rightarrow> (Some err, pic1, h3)
                     | (None, h3) \<Rightarrow>
                         (case invoke E
                                 (PrintTable [] [] (createSummarizeMessage d technologiesMap))
                                 (h3 @ [Println]) of
                            (err, h4) \<Rightarrow> (err, pic1, h4 @ [Println]))))))"

section \<open>Concrete environments\<close>

text \<open>
  One instance of the imported declarations and a few environments, on which the
  theorems below are exercised.  \<open>demoDecls\<close> renders the two records as YAML, leaving
  empty fields out.
\<close>

definition asciiLower :: "char \<Rightarrow> char" where
  "asciiLower c =
     (let n = (of_char c :: nat) in if 65 \<le> n \<and> n \<le> 90 then char_of (n + 32) else c)"

fun yamlField :: "string \<Rightarrow> string \<Rightarrow> string" where
  "yamlField k v = (if v = [] then [] else k @ '': '' @ v @ newline)"

definition yamlRepository :: "Repository \<Rightarrow> string" where
  "yamlRepository r =
     yamlField ''  repo'' (Repo r) @ yamlField ''  serverId'' (ServerId r) @
     yamlField ''  snapshotRepo'' (SnapshotRepo r) @ yamlField ''  releaseRepo'' (ReleaseRepo r)"

function showNat :: "nat \<Rightarrow> string" where
  "showNat n =
     (if n < 10 then [char_of (48 + n)] else showNat (n div 10) @ [char_of (48 + n mod 10)])"
  by pat_completeness auto
termination
  by (relation "measure (\<lambda>n. n)") auto

declare showNat.simps [simp del]

definition yamlVersion :: "int \<Rightarrow> string" where
  "yamlVersion v =
     (if v = 0 then []
      else ''version: '' @ (if v < 0 then ''-'' else []) @ showNat (nat \<bar>v\<bar>) @ newline)"

definition demoDecls :: decls where
  "demoDecls =
     \<lparr>Maven = ''Maven'', Gradle = ''Gradle'', Npm = ''npm'', Go = ''go'', Pip = ''pip'',
      Pipenv = ''pipenv'',
      MavenVirtualDefaultName = ''default-maven-virtual'',
      GradleVirtualDefaultName = ''default-gradle-virtual'',
      NpmVirtualDefaultName = ''default-npm-virtual'',
      GoVirtualDefaultName = ''default-go-virtual'',
      PypiVirtualDefaultName = ''default-pypi-virtual'',
      BuildConfVersion = 1,
      ToLower = map asciiLower,
      MarshalBuildConfigFile = (\<lambda>b. Inr (yamlVersion (Version b) @
         yamlField ''type'' (ConfigType b) @ yamlField ''name'' (BuildName b))),
      MarshalConfigFile = (\<lambda>c. Inr (yamlVersion (ConfVersion c) @
         yamlField ''type'' (ConfType c) @
         ''resolver:'' @ newline @ yamlRepository (Resolver c) @
         ''deployer:'' @ newline @ yamlRepository (Deployer c))),
      CheckError = (\<lambda>err. err),
      PrintBold = (\<lambda>s. s), PrintTitle = (\<lambda>s. s), PrintLink = (\<lambda>s. s),
      PrintComment = (\<lambda>s. s),
      GettingStartedGuideUrl = ''https://example.org/getting-started'',
      GetFeedbackMessage = ''feedback''\<rparr>"

definition demoCommand :: ProjectInitCommand where
  "demoCommand = \<lparr>projectPath = ''/tmp/p/myapp'', serverId = ''local-server''\<rparr>"

text \<open>A manifest of npm in the root directory; every call succeeds.\<close>

definition rootNpm :: extern where
  "rootNpm = \<lparr>defaultServer = (\<lambda>h. Inr ''local-server''),
              detected = (\<lambda>h. Inr [''npm'']),
              outcome = (\<lambda>h. None)\<rparr>"

text \<open>A Maven manifest in a nested directory only: the scan of the root finds nothing.\<close>

definition nestedMaven :: extern where
  "nestedMaven = \<lparr>defaultServer = (\<lambda>h. Inr ''local-server''),
                  detected = (\<lambda>h. if h \<noteq> [] \<and> last h = DetectTechnologies ''/tmp/p/myapp'' False True
                                   then Inr [''Maven''] else Inr []),
                  outcome = (\<lambda>h. None)\<rparr>"

text \<open>No manifest at any depth.\<close>

definition noManifest :: extern where
  "noManifest = \<lparr>defaultServer = (\<lambda>h. Inr ''local-server''),
                 detected = (\<lambda>h. Inr []),
                 outcome = (\<lambda>h. None)\<rparr>"

text \<open>Maven and npm in the root; creating the remote npm repository fails.\<close>

definition remoteFails :: extern where
  "remoteFails = \<lparr>defaultServer = (\<lambda>h. Inr ''local-server''),
                  detected = (\<lambda>h. Inr [''Maven'', ''npm'']),
                  outcome = (\<lambda>h. if h \<noteq> [] \<and> last h = CreateDefaultRemoteRepo ''npm'' ''local-server''
                                  then Some (Error ''403 Forbidden'') else None)\<rparr>"

text \<open>
  npm in the root; every call succeeds but the printing of the summary, whose write to
  the standard output fails.
\<close>

definition printFails :: extern where
  "printFails = \<lparr>defaultServer = (\<lambda>h. Inr ''local-server''),
                 detected = (\<lambda>h. Inr [''npm'']),
                 outcome = (\<lambda>h. if h = [] then None
                                 else (case last h of
                                         PrintTable title subtitle message \<Rightarrow>
                                           Some (Error ''write /dev/stdout: broken pipe'')
                                       | _ \<Rightarrow> None))\<rparr>"

text \<open>
  Maven and npm in the root; every call succeeds.  The first detection of a session
  yields the two technologies in one order, every later one in the other order, as
  the iteration over a Go map may.
\<close>

definition mavenAndNpm :: extern where
  "mavenAndNpm = \<lparr>defaultServer = (\<lambda>h. Inr ''local-server''),
                  detected = (\<lambda>h. if h = [DetectTechnologies ''/tmp/p/myapp'' False False]
                                   then Inr [''Maven'', ''npm''] else Inr [''npm'', ''Maven'']),
                  outcome = (\<lambda>h. None)\<rparr>"

section \<open>Notions used in the statements\<close>

text \<open>
  A plain name is a path element that \<^verbatim>\<open>Clean\<close> copies: not empty, without a
  separator, and neither \<^verbatim>\<open>.\<close> nor \<^verbatim>\<open>..\<close>.  \<open>absPath [a, b, c]\<close> is the
  absolute path \<^verbatim>\<open>/a/b/c\<close>, and \<open>slashes k\<close> are \<open>k\<close> separators.
\<close>

definition plainName :: "string \<Rightarrow> bool" where
  "plainName n = (n \<noteq> [] \<and> CHR ''/'' \<notin> set n \<and> n \<noteq> ''.'' \<and> n \<noteq> ''..'')"

definition absPath :: "string list \<Rightarrow> string" where
  "absPath names = concat (map (\<lambda>n. CHR ''/'' # n) names)"

definition slashes :: "nat \<Rightarrow> string" where
  "slashes k = replicate k (CHR ''/'')"

definition sepStart :: "string \<Rightarrow> bool" where
  "sepStart rest = (rest = [] \<or> hd rest = CHR ''/'')"

text \<open>The calls a run has added to the trace \<open>h\<close> it started from.\<close>

definition newCalls :: "call list \<Rightarrow> call list \<Rightarrow> call list" where
  "newCalls h h' = drop (length h) h'"

fun isProvisioning :: "call \<Rightarrow> bool" where
  "isProvisioning (CreateDefaultLocalRepo tech sid) = True"
| "isProvisioning (CreateDefaultRemoteRepo tech sid) = True"
| "isProvisioning (CreateDefaultVirtualRepo tech sid) = True"
| "isProvisioning c = False"

fun isWriteFile :: "call \<Rightarrow> bool" where
  "isWriteFile (WriteFile path bytes perm) = True"
| "isWriteFile c = False"

text \<open>The directory and the files of the configuration, as the source joins them.\<close>

definition jfrogProjectDir :: "string \<Rightarrow> string" where
  "jfrogProjectDir path = Join [path, ''.jfrog'', ''projects'']"

definition deploymentConfigPath :: "decls \<Rightarrow> string \<Rightarrow> Technology \<Rightarrow> string" where
  "deploymentConfigPath d path tech = Join [jfrogProjectDir path, ToLower d tech @ ''.yaml'']"

definition buildConfigPath :: "string \<Rightarrow> string" where
  "buildConfigPath path = Join [jfrogProjectDir path, buildFileName]"

text \<open>
  The bytes of the two kinds of config file, as functions of the declarations, the
  technology, the project path and the server identifier (empty where
  \<^verbatim>\<open>yaml.Marshal\<close> fails: nothing is written then), and the writes that carry them.
\<close>

definition deploymentConfigBytes :: "decls \<Rightarrow> Technology \<Rightarrow> string \<Rightarrow> string" where
  "deploymentConfigBytes d tech sid =
     (case MarshalConfigFile d (configFile d tech sid) of Inl err \<Rightarrow> [] | Inr b \<Rightarrow> b)"

definition buildConfigBytes :: "decls \<Rightarrow> string \<Rightarrow> string" where
  "buildConfigBytes d path =
     (case MarshalBuildConfigFile d (buildConfigFile \<lparr>projectPath = path, serverId = []\<rparr>) of
        Inl err \<Rightarrow> [] | Inr b \<Rightarrow> b)"

definition deploymentWrite :: "decls \<Rightarrow> string \<Rightarrow> string \<Rightarrow> Technology \<Rightarrow> call" where
  "deploymentWrite d path sid tech =
     WriteFile (deploymentConfigPath d path tech) (deploymentConfigBytes d tech sid) 420"

definition buildWrite :: "decls \<Rightarrow> string \<Rightarrow> call" where
  "buildWrite d path = WriteFile (buildConfigPath path) (buildConfigBytes d path) 420"

text \<open>The files after the writes of a list of calls, each of which succeeded.\<close>

definition applyWrites :: "call list \<Rightarrow> (string \<rightharpoonup> string) \<Rightarrow> (string \<rightharpoonup> string)" where
  "applyWrites cs fs =
     foldl (\<lambda>fs c. case c of WriteFile path bytes perm \<Rightarrow> fs(path \<mapsto> bytes) | _ \<Rightarrow> fs) fs cs"

text \<open>
  The plan of the spec for one technology: ensure the local, the remote and the virtual
  default repository, in this order, then write the deployment config (create the
  directory, serialize, write).  A step is a call, or an error that arises without a
  call (a failed serialization).  \<open>performSteps\<close> carries a plan out as the spec words
  it: one step after the other, and the first error ends everything and is returned as
  it is.
\<close>

definition technologySteps :: "decls \<Rightarrow> ProjectInitCommand \<Rightarrow> Technology \<Rightarrow> (error + call) list" where
  "technologySteps d pic tech =
     [Inr (CreateDefaultLocalRepo tech (serverId pic)),
      Inr (CreateDefaultRemoteRepo tech (serverId pic)),
      Inr (CreateDefaultVirtualRepo tech (serverId pic)),
      Inr (CreateDirIfNotExist (jfrogProjectDir (projectPath pic))),
      (case MarshalConfigFile d (configFile d tech (serverId pic)) of
         Inl err \<Rightarrow> Inl err
       | Inr b \<Rightarrow> Inr (WriteFile (deploymentConfigPath d (projectPath pic) tech) b 420))]"

fun performSteps :: "extern \<Rightarrow> (error + call) list \<Rightarrow> call list \<Rightarrow> error option \<times> call list" where
  "performSteps E [] h = (None, h)"
| "performSteps E (Inl err # steps) h = (Some err, h)"
| "performSteps E (Inr c # steps) h =
     (case outcome E (h @ [c]) of
        Some err \<Rightarrow> (Some err, h @ [c])
      | None \<Rightarrow> performSteps E steps (h @ [c]))"

text \<open>The two shapes of a repository reference.\<close>

definition singleRepo :: "string \<Rightarrow> string \<Rightarrow> Repository" where
  "singleRepo sid name = \<lparr>ServerId = sid, Repo = name, ReleaseRepo = [], SnapshotRepo = []\<rparr>"

definition releaseSnapshotRepo :: "string \<Rightarrow> string \<Rightarrow> Repository" where
  "releaseSnapshotRepo sid name =
     \<lparr>ServerId = sid, Repo = [], ReleaseRepo = name, SnapshotRepo = name\<rparr>"

text \<open>The YAML texts that \<open>demoDecls\<close> produces for \<open>demoCommand\<close>.\<close>

definition mavenYaml :: string where
  "mavenYaml =
     ''version: 1'' @ newline @ ''type: maven'' @ newline @
     ''resolver:'' @ newline @ ''  serverId: local-server'' @ newline @
     ''  snapshotRepo: default-maven-virtual'' @ newline @
     ''  releaseRepo: default-maven-virtual'' @ newline @
     ''deployer:'' @ newline @ ''  serverId: local-server'' @ newline @
     ''  snapshotRepo: default-maven-virtual'' @ newline @
     ''  releaseRepo: default-maven-virtual'' @ newline"

definition npmYaml :: string where
  "npmYaml =
     ''version: 1'' @ newline @ ''type: npm'' @ newline @
     ''resolver:'' @ newline @ ''  repo: default-npm-virtual'' @ newline @
     ''  serverId: local-server'' @ newline @
     ''deployer:'' @ newline @ ''  repo: default-npm-virtual'' @ newline @
     ''  serverId: local-server'' @ newline"

definition nugetYaml :: string where
  "nugetYaml =
     ''version: 1'' @ newline @ ''type: nuget'' @ newline @
     ''resolver:'' @ newline @ ''  serverId: local-server'' @ newline @
     ''deployer:'' @ newline @ ''  serverId: local-server'' @ newline"

definition buildYaml :: "string \<Rightarrow> string" where
  "buildYaml name =
     ''version: 1'' @ newline @ ''type: build'' @ newline @ ''name: '' @ name @ newline"

section \<open>Lemmas on paths\<close>

lemma absPath_simps [simp]:
  "absPath [] = []" "absPath (n # ns) = CHR ''/'' # n @ absPath ns"
  "absPath (xs @ ys) = absPath xs @ absPath ys"
  by (simp_all add: absPath_def)

lemma sepStart_simps [simp]: "sepStart []" "sepStart (CHR ''/'' # xs)"
  "sepStart (absPath ns @ slashes k)"
  by (cases ns; cases k; simp add: sepStart_def slashes_def)+

lemma takeWhile_plain:
  assumes "CHR ''/'' \<notin> set n" "sepStart rest"
  shows "takeWhile (\<lambda>x. \<not> IsPathSeparator x) (n @ rest) = n"
    and "dropWhile (\<lambda>x. \<not> IsPathSeparator x) (n @ rest) = rest"
  using assms
  by (cases rest; simp add: sepStart_def IsPathSeparator_def takeWhile_append dropWhile_append;
      fastforce)+

text \<open>A plain name in front of the input is copied to the buffer, after a separator
  unless the buffer holds the root only.\<close>

lemma cleanLoop_name:
  assumes "plainName n" "sepStart rest"
  shows "cleanLoop True (n @ rest) out 1 =
         cleanLoop True rest ((if length out \<noteq> 1 then out @ ''/'' else out) @ n) 1"
proof -
  from assms(1) obtain c cs where n: "n = c # cs" and c: "c \<noteq> CHR ''/''"
    by (cases n) (auto simp: plainName_def)
  have nosep: "CHR ''/'' \<notin> set cs" using assms(1) n by (simp add: plainName_def)
  have dot: "\<not> (c = CHR ''.'' \<and> (cs @ rest = [] \<or> IsPathSeparator (hd (cs @ rest))))"
    using assms(1) n nosep by (cases cs) (auto simp: plainName_def IsPathSeparator_def)
  have dotdot: "\<not> (c = CHR ''.'' \<and> hd (cs @ rest) = CHR ''.'' \<and>
                 (tl (cs @ rest) = [] \<or> IsPathSeparator (hd (tl (cs @ rest)))))"
  proof (cases cs)
    case Nil
    then show ?thesis using assms(1) n by (simp add: plainName_def)
  next
    case (Cons e es)
    then show ?thesis using assms(1) n nosep
      by (cases es) (auto simp: plainName_def IsPathSeparator_def)
  qed
  have tw: "takeWhile (\<lambda>x. \<not> IsPathSeparator x) (c # cs @ rest) = n"
    and dw: "dropWhile (\<lambda>x. \<not> IsPathSeparator x) (c # cs @ rest) = rest"
    using takeWhile_plain [of n rest] assms n by (simp_all add: plainName_def)
  have "cleanLoop True (c # (cs @ rest)) out 1 =
        cleanLoop True (dropWhile (\<lambda>x. \<not> IsPathSeparator x) (c # cs @ rest))
          ((if length out \<noteq> 1 then out @ ''/'' else out) @
           takeWhile (\<lambda>x. \<not> IsPathSeparator x) (c # cs @ rest)) 1"
    using c dot dotdot
    by (subst cleanLoop.simps(2))
       (simp only: IsPathSeparator_def Let_def if_False simp_thms if_True)
  then show ?thesis unfolding tw dw by (simp add: n)
qed

lemma cleanLoop_slashes: "cleanLoop r (slashes k @ rest) out dd = cleanLoop r rest out dd"
  by (induction k) (simp_all add: slashes_def IsPathSeparator_def)

lemma cleanLoop_absPath:
  assumes "\<forall>n\<in>set names. plainName n" "1 < length out"
  shows "cleanLoop True (absPath names @ slashes k) out 1 = out @ absPath names"
  using assms
proof (induction names arbitrary: out)
  case Nil
  show ?case using cleanLoop_slashes [of True k "[]" out 1] by simp
next
  case (Cons n names)
  have "cleanLoop True (absPath (n # names) @ slashes k) out 1 =
        cleanLoop True (n @ (absPath names @ slashes k)) out 1"
    by (simp add: IsPathSeparator_def)
  also have "\<dots> = cleanLoop True (absPath names @ slashes k) (out @ ''/'' @ n) 1"
    using cleanLoop_name [of n "absPath names @ slashes k" out] Cons.prems by simp
  also have "\<dots> = (out @ ''/'' @ n) @ absPath names"
    using Cons.prems by (intro Cons.IH) (auto simp: plainName_def)
  finally show ?case by simp
qed

lemma Clean_absPath:
  assumes "\<forall>n\<in>set names. plainName n" "names \<noteq> []"
  shows "Clean (absPath names @ slashes k) = absPath names"
proof -
  from assms(2) obtain n ns where names: "names = n # ns" by (cases names) auto
  have n: "plainName n" and ns: "\<forall>n\<in>set ns. plainName n" using assms(1) names by simp_all
  have "cleanLoop True (n @ (absPath ns @ slashes k)) ''/'' 1 =
        cleanLoop True (absPath ns @ slashes k) (''/'' @ n) 1"
    using cleanLoop_name [of n "absPath ns @ slashes k" "''/''"] n by simp
  also have "\<dots> = (''/'' @ n) @ absPath ns"
    using n ns by (intro cleanLoop_absPath) (simp_all add: plainName_def)
  finally have "cleanLoop True (n @ absPath ns @ slashes k) ''/'' 1 = absPath names"
    by (simp add: names)
  then show ?thesis by (simp add: Clean_def names IsPathSeparator_def)
qed

lemma Dir_absPath:
  assumes "\<forall>n\<in>set names. plainName n" "names \<noteq> []" "plainName name"
  shows "Dir (absPath (names @ [name])) = absPath names"
proof -
  have "rev (dropWhile (\<lambda>c. \<not> IsPathSeparator c) (rev (absPath (names @ [name])))) =
        absPath names @ slashes 1"
    using assms(3)
    by (simp add: plainName_def slashes_def IsPathSeparator_def dropWhile_append)
  then show ?thesis using Clean_absPath [OF assms(1,2), of 1] by (simp add: Dir_def)
qed

lemma Dir_absPath_slashes:
  assumes "\<forall>n\<in>set names. plainName n" "names \<noteq> []"
  shows "Dir (absPath names @ slashes (Suc k)) = absPath names"
proof -
  have "rev (absPath names @ slashes (Suc k)) = CHR ''/'' # rev (absPath names @ slashes k)"
    by (simp add: slashes_def replicate_append_same)
  then have "rev (dropWhile (\<lambda>c. \<not> IsPathSeparator c) (rev (absPath names @ slashes (Suc k)))) =
        absPath names @ slashes (Suc k)"
    by (simp add: IsPathSeparator_def slashes_def replicate_append_same)
  then show ?thesis using Clean_absPath [OF assms, of "Suc k"] by (simp add: Dir_def)
qed

lemma Base_absPath:
  assumes "plainName name"
  shows "Base (absPath (names @ [name])) = name"
proof -
  from assms obtain c cs where n: "name = cs @ [c]" "c \<noteq> CHR ''/''" "CHR ''/'' \<notin> set cs"
    by (cases name rule: rev_cases) (auto simp: plainName_def)
  show ?thesis using n
    by (simp add: Base_def IsPathSeparator_def Let_def takeWhile_append)
qed

lemma Join_absPath:
  assumes "\<forall>n\<in>set names. plainName n" "names \<noteq> []" "\<forall>n\<in>set elems. plainName n"
  shows "Join (absPath names # elems) = absPath (names @ elems)"
proof -
  have sj: "strings_Join (p # elems) ''/'' = p @ absPath elems" for p
    by (induction elems arbitrary: p) simp_all
  have ne: "absPath names \<noteq> []" using assms(2) by (cases names) simp_all
  have "Clean (absPath (names @ elems) @ slashes 0) = absPath (names @ elems)"
    using assms by (intro Clean_absPath) auto
  then show ?thesis using ne by (simp add: sj slashes_def)
qed

lemma plainName_yaml: "CHR ''/'' \<notin> set t \<Longrightarrow> plainName (t @ ''.yaml'')"
  by (cases t) (auto simp: plainName_def)

lemma deploymentConfigPath_absPath:
  assumes "\<forall>n\<in>set names. plainName n" "names \<noteq> []" "CHR ''/'' \<notin> set (ToLower d tech)"
  shows "deploymentConfigPath d (absPath names) tech =
         absPath names @ ''/.jfrog/projects/'' @ ToLower d tech @ ''.yaml''"
proof -
  have dir: "jfrogProjectDir (absPath names) = absPath (names @ [''.jfrog'', ''projects''])"
    unfolding jfrogProjectDir_def using assms(1,2)
    by (intro Join_absPath) (simp_all add: plainName_def)
  have "Join [absPath (names @ [''.jfrog'', ''projects'']), ToLower d tech @ ''.yaml''] =
        absPath ((names @ [''.jfrog'', ''projects'']) @ [ToLower d tech @ ''.yaml''])"
    using assms plainName_yaml [of "ToLower d tech"]
    by (intro Join_absPath) (auto simp: plainName_def)
  then show ?thesis by (simp add: deploymentConfigPath_def dir)
qed

section \<open>What the two writers put on the trace\<close>

lemma createProjectBuildConfigs_unfold:
  "createProjectBuildConfigs E d tech path sid h =
     (let h1 = h @ [CreateDirIfNotExist (jfrogProjectDir path)] in
      case outcome E h1 of
        Some err \<Rightarrow> (CheckError d (Some err), h1)
      | None \<Rightarrow>
          (case MarshalConfigFile d (configFile d tech sid) of
             Inl err \<Rightarrow> (CheckError d (Some err), h1)
           | Inr b \<Rightarrow>
               (CheckError d (outcome E (h1 @ [WriteFile (deploymentConfigPath d path tech) b 420])),
                h1 @ [WriteFile (deploymentConfigPath d path tech) b 420])))"
  by (simp add: createProjectBuildConfigs_def invoke_def jfrogProjectDir_def
      deploymentConfigPath_def Let_def split: option.splits sum.splits)

lemma createProjectBuildConfigs_trace:
  "snd (createProjectBuildConfigs E d tech path sid h) =
     h @ CreateDirIfNotExist (jfrogProjectDir path) #
       (if outcome E (h @ [CreateDirIfNotExist (jfrogProjectDir path)]) = None
        then (case MarshalConfigFile d (configFile d tech sid) of
                Inl err \<Rightarrow> []
              | Inr b \<Rightarrow> [WriteFile (deploymentConfigPath d path tech) b 420])
        else [])"
  by (cases "outcome E (h @ [CreateDirIfNotExist (jfrogProjectDir path)])";
      cases "MarshalConfigFile d (configFile d tech sid)")
     (simp_all add: createProjectBuildConfigs_unfold)

lemma createProjectBuildConfigs_written:
  assumes "WriteFile p b m \<in> set (newCalls h (snd (createProjectBuildConfigs E d tech path sid h)))"
  shows "p = deploymentConfigPath d path tech \<and> m = 420 \<and>
         MarshalConfigFile d (configFile d tech sid) = Inr b"
proof (cases "MarshalConfigFile d (configFile d tech sid)")
  case (Inl err)
  then show ?thesis using assms
    by (cases "outcome E (h @ [CreateDirIfNotExist (jfrogProjectDir path)])")
       (simp_all add: createProjectBuildConfigs_trace newCalls_def)
next
  case (Inr bytes)
  then show ?thesis using assms
    by (cases "outcome E (h @ [CreateDirIfNotExist (jfrogProjectDir path)])")
       (simp_all add: createProjectBuildConfigs_trace newCalls_def)
qed

lemma createBuildConfig_unfold:
  "createBuildConfig E d pic h =
     (let h1 = h @ [CreateDirIfNotExist (jfrogProjectDir (projectPath pic))] in
      case outcome E h1 of
        Some err \<Rightarrow> (CheckError d (Some err), h1)
      | None \<Rightarrow>
          (case MarshalBuildConfigFile d (buildConfigFile pic) of
             Inl err \<Rightarrow> (CheckError d (Some err), h1)
           | Inr b \<Rightarrow>
               (CheckError d (outcome E (h1 @ [WriteFile (buildConfigPath (projectPath pic)) b 420])),
                h1 @ [WriteFile (buildConfigPath (projectPath pic)) b 420])))"
  by (simp add: createBuildConfig_def invoke_def jfrogProjectDir_def
      buildConfigPath_def Let_def split: option.splits sum.splits)

lemma createBuildConfig_trace:
  "snd (createBuildConfig E d pic h) =
     h @ CreateDirIfNotExist (jfrogProjectDir (projectPath pic)) #
       (if outcome E (h @ [CreateDirIfNotExist (jfrogProjectDir (projectPath pic))]) = None
        then (case MarshalBuildConfigFile d (buildConfigFile pic) of
                Inl err \<Rightarrow> []
              | Inr b \<Rightarrow> [WriteFile (buildConfigPath (projectPath pic)) b 420])
        else [])"
  by (cases "outcome E (h @ [CreateDirIfNotExist (jfrogProjectDir (projectPath pic))])";
      cases "MarshalBuildConfigFile d (buildConfigFile pic)")
     (simp_all add: createBuildConfig_unfold)

lemma configFile_repositories:
  "Resolver (configFile d tech sid) = Deployer (configFile d tech sid)"
  "ServerId (Resolver (configFile d tech sid)) = sid"
  "ServerId (Deployer (configFile d tech sid)) = sid"
  "ConfVersion (configFile d tech sid) = BuildConfVersion d"
  "ConfType (configFile d tech sid) = ToLower d tech"
  by (simp_all add: configFile_def Let_def zeroRepository_def)

lemma demo_lower:
  "ToLower demoDecls ''npm'' = ''npm''" "ToLower demoDecls ''Maven'' = ''maven''"
  "ToLower demoDecls ''Gradle'' = ''gradle''" "ToLower demoDecls ''nuget'' = ''nuget''"
  by code_simp+

section \<open>Resolver and deployer\<close>

text \<open>
  C6. In the deployment config record of any technology the resolver and the deployer
  are the same repository reference, carrying the given server identifier, and every
  deployment config file that is written holds the serialization of that record.
\<close>

theorem resolver_and_deployer_identical:
  "Resolver (configFile d tech sid) = Deployer (configFile d tech sid) \<and>
   ServerId (Resolver (configFile d tech sid)) = sid \<and>
   ServerId (Deployer (configFile d tech sid)) = sid \<and>
   (\<forall>p b m. WriteFile p b m \<in> set (newCalls h (snd (createProjectBuildConfigs E d tech path sid h)))
      \<longrightarrow> MarshalConfigFile d (configFile d tech sid) = Inr b)"
  using createProjectBuildConfigs_written [of _ _ _ h E d tech path sid]
    configFile_repositories(1) [of d tech sid]
  by (simp add: configFile_repositories(2,3))


theorem resolver_and_deployer_identical_witness:
  "Resolver (configFile demoDecls ''Maven'' ''local-server'') =
     releaseSnapshotRepo ''local-server'' ''default-maven-virtual'' \<and>
   Deployer (configFile demoDecls ''Maven'' ''local-server'') =
     releaseSnapshotRepo ''local-server'' ''default-maven-virtual'' \<and>
   WriteFile ''/tmp/p/myapp/.jfrog/projects/maven.yaml'' mavenYaml 420
     \<in> set (newCalls [] (snd (createProjectBuildConfigs rootNpm demoDecls ''Maven''
                                  ''/tmp/p/myapp'' ''local-server'' []))) \<and>
   MarshalConfigFile demoDecls (configFile demoDecls ''Maven'' ''local-server'') = Inr mavenYaml"
proof -
  note inst = resolver_and_deployer_identical [of demoDecls "''Maven''" "''local-server''" "[]"
      rootNpm "''/tmp/p/myapp''"]
  have res: "Resolver (configFile demoDecls ''Maven'' ''local-server'') =
             releaseSnapshotRepo ''local-server'' ''default-maven-virtual''"
    by (simp add: configFile_def demoDecls_def Let_def zeroRepository_def releaseSnapshotRepo_def)
  have wr: "WriteFile ''/tmp/p/myapp/.jfrog/projects/maven.yaml'' mavenYaml 420
     \<in> set (newCalls [] (snd (createProjectBuildConfigs rootNpm demoDecls ''Maven''
                                  ''/tmp/p/myapp'' ''local-server'' [])))"
    unfolding newCalls_def mavenYaml_def by code_simp
  from inst wr have "MarshalConfigFile demoDecls (configFile demoDecls ''Maven'' ''local-server'') =
      Inr mavenYaml" by blast
  with inst res wr show ?thesis by simp
qed


section \<open>The repository names of each technology\<close>

lemma configFile_cases:
  "configFile d tech sid =
     \<lparr>ConfVersion = BuildConfVersion d, ConfType = ToLower d tech,
      Resolver = (if tech = Maven d then releaseSnapshotRepo sid (MavenVirtualDefaultName d)
                  else if tech = Gradle d then singleRepo sid (GradleVirtualDefaultName d)
                  else if tech = Npm d then singleRepo sid (NpmVirtualDefaultName d)
                  else if tech = Go d then singleRepo sid (GoVirtualDefaultName d)
                  else if tech = Pipenv d \<or> tech = Pip d
                    then singleRepo sid (PypiVirtualDefaultName d)
                  else singleRepo sid []),
      Deployer = (if tech = Maven d then releaseSnapshotRepo sid (MavenVirtualDefaultName d)
                  else if tech = Gradle d then singleRepo sid (GradleVirtualDefaultName d)
                  else if tech = Npm d then singleRepo sid (NpmVirtualDefaultName d)
                  else if tech = Go d then singleRepo sid (GoVirtualDefaultName d)
                  else if tech = Pipenv d \<or> tech = Pip d
                    then singleRepo sid (PypiVirtualDefaultName d)
                  else singleRepo sid [])\<rparr>"
  by (simp add: configFile_def Let_def zeroRepository_def singleRepo_def releaseSnapshotRepo_def)

text \<open>
  C2. With the six technology constants pairwise different (Go rejects a switch with a
  repeated constant case), the record for Maven has the Maven virtual default name in
  \<open>ReleaseRepo\<close> and \<open>SnapshotRepo\<close> of resolver and deployer and an empty \<open>Repo\<close>;
  the record for Gradle, Npm, Go, Pip and Pipenv has the virtual default name of the
  technology in \<open>Repo\<close> and empty \<open>ReleaseRepo\<close> and \<open>SnapshotRepo\<close>.  What is
  written is the serialization of that record.
\<close>

theorem maven_release_snapshot_others_single_repo:
  assumes "distinct [Maven d, Gradle d, Npm d, Go d, Pip d, Pipenv d]"
  shows
   "Resolver (configFile d (Maven d) sid) = releaseSnapshotRepo sid (MavenVirtualDefaultName d) \<and>
    Deployer (configFile d (Maven d) sid) = releaseSnapshotRepo sid (MavenVirtualDefaultName d) \<and>
    Resolver (configFile d (Gradle d) sid) = singleRepo sid (GradleVirtualDefaultName d) \<and>
    Deployer (configFile d (Gradle d) sid) = singleRepo sid (GradleVirtualDefaultName d) \<and>
    Resolver (configFile d (Npm d) sid) = singleRepo sid (NpmVirtualDefaultName d) \<and>
    Deployer (configFile d (Npm d) sid) = singleRepo sid (NpmVirtualDefaultName d) \<and>
    Resolver (configFile d (Go d) sid) = singleRepo sid (GoVirtualDefaultName d) \<and>
    Deployer (configFile d (Go d) sid) = singleRepo sid (GoVirtualDefaultName d) \<and>
    Resolver (configFile d (Pip d) sid) = singleRepo sid (PypiVirtualDefaultName d) \<and>
    Deployer (configFile d (Pip d) sid) = singleRepo sid (PypiVirtualDefaultName d) \<and>
    Resolver (configFile d (Pipenv d) sid) = singleRepo sid (PypiVirtualDefaultName d) \<and>
    Deployer (configFile d (Pipenv d) sid) = singleRepo sid (PypiVirtualDefaultName d) \<and>
    (\<forall>tech p b m.
       WriteFile p b m \<in> set (newCalls h (snd (createProjectBuildConfigs E d tech path sid h)))
       \<longrightarrow> MarshalConfigFile d (configFile d tech sid) = Inr b)"
proof -
  have "\<forall>tech p b m.
       WriteFile p b m \<in> set (newCalls h (snd (createProjectBuildConfigs E d tech path sid h)))
       \<longrightarrow> MarshalConfigFile d (configFile d tech sid) = Inr b"
    using createProjectBuildConfigs_written by blast
  moreover have "Maven d \<noteq> Gradle d" "Maven d \<noteq> Npm d" "Maven d \<noteq> Go d" "Maven d \<noteq> Pip d"
    "Maven d \<noteq> Pipenv d" "Gradle d \<noteq> Npm d" "Gradle d \<noteq> Go d" "Gradle d \<noteq> Pip d"
    "Gradle d \<noteq> Pipenv d" "Npm d \<noteq> Go d" "Npm d \<noteq> Pip d" "Npm d \<noteq> Pipenv d"
    "Go d \<noteq> Pip d" "Go d \<noteq> Pipenv d"
    using assms by simp_all
  ultimately show ?thesis
    by (simp add: configFile_cases) 
qed

lemma demoDecls_distinct:
  "distinct [Maven demoDecls, Gradle demoDecls, Npm demoDecls, Go demoDecls, Pip demoDecls,
             Pipenv demoDecls]"
  by (simp add: demoDecls_def)

theorem maven_release_snapshot_others_single_repo_witness:
  "Resolver (configFile demoDecls ''Maven'' ''local-server'') =
     \<lparr>ServerId = ''local-server'', Repo = [], ReleaseRepo = ''default-maven-virtual'',
      SnapshotRepo = ''default-maven-virtual''\<rparr> \<and>
   Deployer (configFile demoDecls ''Maven'' ''local-server'') =
     \<lparr>ServerId = ''local-server'', Repo = [], ReleaseRepo = ''default-maven-virtual'',
      SnapshotRepo = ''default-maven-virtual''\<rparr> \<and>
   Resolver (configFile demoDecls ''npm'' ''local-server'') =
     \<lparr>ServerId = ''local-server'', Repo = ''default-npm-virtual'', ReleaseRepo = [],
      SnapshotRepo = []\<rparr> \<and>
   Deployer (configFile demoDecls ''pipenv'' ''local-server'') =
     \<lparr>ServerId = ''local-server'', Repo = ''default-pypi-virtual'', ReleaseRepo = [],
      SnapshotRepo = []\<rparr> \<and>
   WriteFile ''/tmp/p/myapp/.jfrog/projects/npm.yaml'' npmYaml 420
     \<in> set (newCalls [] (snd (createProjectBuildConfigs rootNpm demoDecls ''npm''
                                  ''/tmp/p/myapp'' ''local-server'' []))) \<and>
   MarshalConfigFile demoDecls (configFile demoDecls ''npm'' ''local-server'') = Inr npmYaml"
proof -
  note inst = maven_release_snapshot_others_single_repo [OF demoDecls_distinct,
      of "''local-server''" "[]" rootNpm "''/tmp/p/myapp''"]
  have wr: "WriteFile ''/tmp/p/myapp/.jfrog/projects/npm.yaml'' npmYaml 420
     \<in> set (newCalls [] (snd (createProjectBuildConfigs rootNpm demoDecls ''npm''
                                  ''/tmp/p/myapp'' ''local-server'' [])))"
    unfolding newCalls_def npmYaml_def by code_simp
  from inst wr have m: "MarshalConfigFile demoDecls (configFile demoDecls ''npm'' ''local-server'') =
      Inr npmYaml" by blast
  have names: "Maven demoDecls = ''Maven''" "Npm demoDecls = ''npm''"
    "Pipenv demoDecls = ''pipenv''"
    "MavenVirtualDefaultName demoDecls = ''default-maven-virtual''"
    "NpmVirtualDefaultName demoDecls = ''default-npm-virtual''"
    "PypiVirtualDefaultName demoDecls = ''default-pypi-virtual''"
    by (simp_all add: demoDecls_def)
  from inst have "Resolver (configFile demoDecls ''Maven'' ''local-server'') =
       releaseSnapshotRepo ''local-server'' ''default-maven-virtual'' \<and>
     Deployer (configFile demoDecls ''Maven'' ''local-server'') =
       releaseSnapshotRepo ''local-server'' ''default-maven-virtual'' \<and>
     Resolver (configFile demoDecls ''npm'' ''local-server'') =
       singleRepo ''local-server'' ''default-npm-virtual'' \<and>
     Deployer (configFile demoDecls ''pipenv'' ''local-server'') =
       singleRepo ''local-server'' ''default-pypi-virtual''"
    unfolding names by blast
  then show ?thesis using wr m
    by (simp add: singleRepo_def releaseSnapshotRepo_def)
qed

section \<open>A technology outside the switch\<close>

text \<open>
  C10. For a technology that is none of the six constants of the switch, the record has
  the server identifier in resolver and deployer and no repository name at all; the
  file named after the lower-cased technology is written as for any other technology
  (after the directory was created and the record serialized), and when these steps
  succeed no error is returned.
\<close>

theorem unsupported_technology_config:
  assumes "tech \<notin> {Maven d, Gradle d, Npm d, Go d, Pip d, Pipenv d}"
  shows
   "configFile d tech sid =
      \<lparr>ConfVersion = BuildConfVersion d, ConfType = ToLower d tech,
       Resolver = \<lparr>ServerId = sid, Repo = [], ReleaseRepo = [], SnapshotRepo = []\<rparr>,
       Deployer = \<lparr>ServerId = sid, Repo = [], ReleaseRepo = [], SnapshotRepo = []\<rparr>\<rparr> \<and>
    (outcome E (h @ [CreateDirIfNotExist (jfrogProjectDir path)]) = None \<and>
     MarshalConfigFile d (configFile d tech sid) = Inr b \<and>
     outcome E (h @ [CreateDirIfNotExist (jfrogProjectDir path),
                     WriteFile (Join [jfrogProjectDir path, ToLower d tech @ ''.yaml'']) b 420]) = None
     \<longrightarrow> createProjectBuildConfigs E d tech path sid h =
           (CheckError d None,
            h @ [CreateDirIfNotExist (jfrogProjectDir path),
                 WriteFile (Join [jfrogProjectDir path, ToLower d tech @ ''.yaml'']) b 420]))"
  using assms
  by (simp add: configFile_cases singleRepo_def createProjectBuildConfigs_unfold
      deploymentConfigPath_def)

theorem unsupported_technology_config_witness:
  "configFile demoDecls ''nuget'' ''local-server'' =
      \<lparr>ConfVersion = 1, ConfType = ''nuget'',
       Resolver = \<lparr>ServerId = ''local-server'', Repo = [], ReleaseRepo = [], SnapshotRepo = []\<rparr>,
       Deployer = \<lparr>ServerId = ''local-server'', Repo = [], ReleaseRepo = [], SnapshotRepo = []\<rparr>\<rparr> \<and>
   createProjectBuildConfigs rootNpm demoDecls ''nuget'' ''/tmp/p/myapp'' ''local-server'' [] =
     (None, [CreateDirIfNotExist ''/tmp/p/myapp/.jfrog/projects'',
             WriteFile ''/tmp/p/myapp/.jfrog/projects/nuget.yaml'' nugetYaml 420])"
proof -
  have notin: "''nuget'' \<notin> {Maven demoDecls, Gradle demoDecls, Npm demoDecls, Go demoDecls,
                            Pip demoDecls, Pipenv demoDecls}"
    by (simp add: demoDecls_def)
  have dir: "jfrogProjectDir ''/tmp/p/myapp'' = ''/tmp/p/myapp/.jfrog/projects''"
    by code_simp
  have fname: "Join [''/tmp/p/myapp/.jfrog/projects'', ''nuget.yaml''] =
              ''/tmp/p/myapp/.jfrog/projects/nuget.yaml''"
    by code_simp
  have m: "MarshalConfigFile demoDecls (configFile demoDecls ''nuget'' ''local-server'') =
           Inr nugetYaml"
    unfolding nugetYaml_def by code_simp
  have ok: "outcome rootNpm x = None" "CheckError demoDecls None = None"
    "BuildConfVersion demoDecls = 1" for x
    by (simp_all add: rootNpm_def demoDecls_def)
  show ?thesis
    using unsupported_technology_config [OF notin, of "''local-server''" rootNpm "[]"
        "''/tmp/p/myapp''" nugetYaml]
    by (simp add: dir fname m ok demo_lower del: Join.simps)
qed


section \<open>Where and what the deployment config is\<close>

text \<open>
  C7. \<^verbatim>\<open>createProjectBuildConfigs\<close> creates the directory
  \<^verbatim>\<open>Join(path, ".jfrog", "projects")\<close> and then, when that and the serialization
  succeed, writes exactly one file, named after the lower-cased technology with the
  suffix \<^verbatim>\<open>.yaml\<close>, in that directory; the record it serializes has the version
  constant and the lower-cased technology as its type.  For a project path \<^verbatim>\<open>/a/.../z\<close>
  of plain names and a lower-cased technology without a separator, the file is
  \<^verbatim>\<open>/a/.../z/.jfrog/projects/<technology>.yaml\<close>.
\<close>

theorem deployment_config_path_version_type:
  "snd (createProjectBuildConfigs E d tech path sid h) =
     h @ CreateDirIfNotExist (Join [path, ''.jfrog'', ''projects'']) #
       (if outcome E (h @ [CreateDirIfNotExist (Join [path, ''.jfrog'', ''projects''])]) = None
        then (case MarshalConfigFile d (configFile d tech sid) of
                Inl err \<Rightarrow> []
              | Inr b \<Rightarrow>
                  [WriteFile (Join [Join [path, ''.jfrog'', ''projects''],
                                    ToLower d tech @ ''.yaml'']) b 420])
        else []) \<and>
   ConfVersion (configFile d tech sid) = BuildConfVersion d \<and>
   ConfType (configFile d tech sid) = ToLower d tech \<and>
   ((\<forall>n\<in>set names. plainName n) \<and> names \<noteq> [] \<and> CHR ''/'' \<notin> set (ToLower d tech) \<longrightarrow>
      Join [Join [absPath names, ''.jfrog'', ''projects''], ToLower d tech @ ''.yaml''] =
      absPath names @ ''/.jfrog/projects/'' @ ToLower d tech @ ''.yaml'')"
proof -
  have "(\<forall>n\<in>set names. plainName n) \<and> names \<noteq> [] \<and> CHR ''/'' \<notin> set (ToLower d tech) \<longrightarrow>
      Join [Join [absPath names, ''.jfrog'', ''projects''], ToLower d tech @ ''.yaml''] =
      absPath names @ ''/.jfrog/projects/'' @ ToLower d tech @ ''.yaml''"
    using deploymentConfigPath_absPath [of names d tech]
    unfolding deploymentConfigPath_def jfrogProjectDir_def by blast
  moreover note createProjectBuildConfigs_trace [of E d tech path sid h,
      unfolded deploymentConfigPath_def jfrogProjectDir_def]
  ultimately show ?thesis
    by (simp only: configFile_repositories simp_thms)
qed

theorem deployment_config_path_version_type_witness:
  "snd (createProjectBuildConfigs rootNpm demoDecls ''Maven'' ''/tmp/p/myapp'' ''local-server'' []) =
     [CreateDirIfNotExist ''/tmp/p/myapp/.jfrog/projects'',
      WriteFile ''/tmp/p/myapp/.jfrog/projects/maven.yaml'' mavenYaml 420] \<and>
   ConfVersion (configFile demoDecls ''Maven'' ''local-server'') = 1 \<and>
   ConfType (configFile demoDecls ''Maven'' ''local-server'') = ''maven'' \<and>
   plainName ''tmp'' \<and> plainName ''p'' \<and> plainName ''myapp'' \<and>
   Join [Join [absPath [''tmp'', ''p'', ''myapp''], ''.jfrog'', ''projects''], ''maven.yaml''] =
     ''/tmp/p/myapp/.jfrog/projects/maven.yaml''"
proof -
  note inst = deployment_config_path_version_type [of rootNpm demoDecls "''Maven''"
      "''/tmp/p/myapp''" "''local-server''" "[]" "[''tmp'', ''p'', ''myapp'']"]
  have plain: "plainName ''tmp''" "plainName ''p''" "plainName ''myapp''"
    by (simp_all add: plainName_def)
  have m: "MarshalConfigFile demoDecls (configFile demoDecls ''Maven'' ''local-server'') =
           Inr mavenYaml"
    unfolding mavenYaml_def by code_simp
  have dir: "Join [''/tmp/p/myapp'', ''.jfrog'', ''projects''] = ''/tmp/p/myapp/.jfrog/projects''"
    by code_simp
  have fname: "Join [''/tmp/p/myapp/.jfrog/projects'', ''maven.yaml''] =
               ''/tmp/p/myapp/.jfrog/projects/maven.yaml''"
    by code_simp
  have ok: "outcome rootNpm x = None" "BuildConfVersion demoDecls = 1" for x
    by (simp_all add: rootNpm_def demoDecls_def)
  show ?thesis using inst plain
    by (simp add: m dir fname ok demo_lower del: Join.simps)
qed

section \<open>The name in the build config\<close>

text \<open>
  C3, as the source has it. The name in the build config is
  \<^verbatim>\<open>Base(Dir(projectPath))\<close>, and the file written is the serialization of that
  record.  For a project path \<^verbatim>\<open>/.../parent/name\<close> of plain names this is
  \<^verbatim>\<open>parent\<close>, the base name of the parent directory; when the same path ends with
  one or more separators it is \<^verbatim>\<open>name\<close>, the base name of the project directory
  itself.
\<close>

theorem build_name_base_of_dir:
  assumes "\<forall>n\<in>set names. plainName n" "plainName parent" "plainName name"
  shows
   "BuildName (buildConfigFile
      \<lparr>projectPath = absPath (names @ [parent, name]), serverId = sid\<rparr>) = parent \<and>
    BuildName (buildConfigFile
      \<lparr>projectPath = absPath (names @ [parent, name]) @ slashes (Suc k), serverId = sid\<rparr>) = name \<and>
    BuildName (buildConfigFile pic) = Base (Dir (projectPath pic)) \<and>
    snd (createBuildConfig E d pic h) =
      h @ CreateDirIfNotExist (Join [projectPath pic, ''.jfrog'', ''projects'']) #
        (if outcome E (h @ [CreateDirIfNotExist (Join [projectPath pic, ''.jfrog'', ''projects''])])
            = None
         then (case MarshalBuildConfigFile d (buildConfigFile pic) of
                 Inl err \<Rightarrow> []
               | Inr b \<Rightarrow>
                   [WriteFile (Join [Join [projectPath pic, ''.jfrog'', ''projects''],
                                     buildFileName]) b 420])
         else [])"
proof -
  have all: "\<forall>n\<in>set (names @ [parent]). plainName n" "\<forall>n\<in>set (names @ [parent, name]). plainName n"
    using assms by simp_all
  have "Dir (absPath ((names @ [parent]) @ [name])) = absPath (names @ [parent])"
    using all(1) assms(3) by (intro Dir_absPath) simp_all
  then have a: "Base (Dir (absPath (names @ [parent, name]))) = parent"
    using Base_absPath [OF assms(2), of names] by simp
  have "Dir (absPath (names @ [parent, name]) @ slashes (Suc k)) = absPath (names @ [parent, name])"
    using all(2) by (intro Dir_absPath_slashes) simp_all
  then have b: "Base (Dir (absPath (names @ [parent, name]) @ slashes (Suc k))) = name"
    using Base_absPath [OF assms(3), of "names @ [parent]"] by simp
  note createBuildConfig_trace [of E d pic h, unfolded buildConfigPath_def jfrogProjectDir_def]
  then show ?thesis using a b
    by (simp add: buildConfigFile_def del: Join.simps)
qed

theorem build_name_base_of_dir_witness:
  "plainName ''tmp'' \<and> plainName ''p'' \<and> plainName ''myapp'' \<and>
   BuildName (buildConfigFile \<lparr>projectPath = ''/tmp/p/myapp'', serverId = ''local-server''\<rparr>) = ''p'' \<and>
   BuildName (buildConfigFile \<lparr>projectPath = ''/tmp/p/myapp//'', serverId = ''local-server''\<rparr>) =
     ''myapp'' \<and>
   snd (createBuildConfig rootNpm demoDecls demoCommand []) =
     [CreateDirIfNotExist ''/tmp/p/myapp/.jfrog/projects'',
      WriteFile ''/tmp/p/myapp/.jfrog/projects/build.yaml'' (buildYaml ''p'') 420]"
proof -
  have plain: "\<forall>n\<in>set [''tmp'']. plainName n" "plainName ''p''" "plainName ''myapp''"
    "plainName ''tmp''"
    by (simp_all add: plainName_def)
  note inst = build_name_base_of_dir [OF plain(1,2,3), of "''local-server''" 1 demoCommand
      rootNpm demoDecls "[]"]
  have dir: "Join [''/tmp/p/myapp'', ''.jfrog'', ''projects''] = ''/tmp/p/myapp/.jfrog/projects''"
    by code_simp
  have fname: "Join [''/tmp/p/myapp/.jfrog/projects'', buildFileName] =
               ''/tmp/p/myapp/.jfrog/projects/build.yaml''"
    by code_simp
  have m: "MarshalBuildConfigFile demoDecls (buildConfigFile demoCommand) = Inr (buildYaml ''p'')"
    unfolding buildYaml_def by code_simp
  have ok: "outcome rootNpm x = None" "projectPath demoCommand = ''/tmp/p/myapp''" for x
    by (simp_all add: rootNpm_def demoCommand_def)
  show ?thesis using inst plain(2,3,4)
    by (simp add: m dir fname ok slashes_def del: Join.simps)
qed

text \<open>
  The claim as stated fails: the same project directory, given once without and once
  with a trailing separator, gets two different names.
\<close>

theorem trailing_separator_changes_build_name:
  "BuildName (buildConfigFile \<lparr>projectPath = ''/tmp/p/myapp'', serverId = ''local-server''\<rparr>) = ''p'' \<and>
   BuildName (buildConfigFile \<lparr>projectPath = ''/tmp/p/myapp/'', serverId = ''local-server''\<rparr>) =
     ''myapp'' \<and>
   snd (createBuildConfig rootNpm demoDecls
          \<lparr>projectPath = ''/tmp/p/myapp/'', serverId = ''local-server''\<rparr> []) =
     [CreateDirIfNotExist ''/tmp/p/myapp/.jfrog/projects'',
      WriteFile ''/tmp/p/myapp/.jfrog/projects/build.yaml'' (buildYaml ''myapp'') 420]"
  unfolding buildYaml_def by code_simp

section \<open>The loop over the technologies\<close>

lemma performSteps_append:
  "performSteps E (xs @ ys) h =
     (case performSteps E xs h of
        (None, h1) \<Rightarrow> performSteps E ys h1
      | (Some err, h1) \<Rightarrow> (Some err, h1))"
  by (induction E xs h rule: performSteps.induct) (simp_all split: option.split)

lemma createDefaultReposIfNeeded_steps:
  "createDefaultReposIfNeeded E tech sid h =
     performSteps E [Inr (CreateDefaultLocalRepo tech sid), Inr (CreateDefaultRemoteRepo tech sid),
                     Inr (CreateDefaultVirtualRepo tech sid)] h"
  by (simp add: createDefaultReposIfNeeded_def invoke_def split: option.split)

lemma createProjectBuildConfigs_steps:
  assumes "\<forall>x. CheckError d x = x"
  shows "createProjectBuildConfigs E d tech path sid h =
     performSteps E
       [Inr (CreateDirIfNotExist (jfrogProjectDir path)),
        (case MarshalConfigFile d (configFile d tech sid) of
           Inl err \<Rightarrow> Inl err
         | Inr b \<Rightarrow> Inr (WriteFile (deploymentConfigPath d path tech) b 420))] h"
  using assms
  by (simp add: createProjectBuildConfigs_unfold split: option.split sum.split)

lemma technology_iteration_steps:
  assumes "\<forall>x. CheckError d x = x"
  shows "(case createDefaultReposIfNeeded E tech (serverId pic) h of
            (Some err, h1) \<Rightarrow> (Some err, h1)
          | (None, h1) \<Rightarrow>
              createProjectBuildConfigs E d tech (projectPath pic) (serverId pic) h1) =
         performSteps E (technologySteps d pic tech) h"
proof -
  have "technologySteps d pic tech =
        [Inr (CreateDefaultLocalRepo tech (serverId pic)),
         Inr (CreateDefaultRemoteRepo tech (serverId pic)),
         Inr (CreateDefaultVirtualRepo tech (serverId pic))] @
        [Inr (CreateDirIfNotExist (jfrogProjectDir (projectPath pic))),
         (case MarshalConfigFile d (configFile d tech (serverId pic)) of
            Inl err \<Rightarrow> Inl err
          | Inr b \<Rightarrow> Inr (WriteFile (deploymentConfigPath d (projectPath pic) tech) b 420))]"
    by (simp add: technologySteps_def)
  then show ?thesis
    by (simp only: performSteps_append createDefaultReposIfNeeded_steps [symmetric]
        createProjectBuildConfigs_steps [OF assms, symmetric] split: prod.split option.split)
qed

lemma forTechnologies_steps:
  assumes "\<forall>x. CheckError d x = x"
  shows "forTechnologies E d pic ts h =
         performSteps E (concat (map (technologySteps d pic) ts)) h"
proof (induction ts arbitrary: h)
  case Nil
  show ?case by simp
next
  case (Cons tech ts)
  have "forTechnologies E d pic (tech # ts) h =
        (case (case createDefaultReposIfNeeded E tech (serverId pic) h of
                 (Some err, h1) \<Rightarrow> (Some err, h1)
               | (None, h1) \<Rightarrow>
                   createProjectBuildConfigs E d tech (projectPath pic) (serverId pic) h1) of
           (None, h2) \<Rightarrow> forTechnologies E d pic ts h2
         | (Some err, h2) \<Rightarrow> (Some err, h2))"
    by (simp split: prod.split option.split)
  then show ?case
    by (simp only: technology_iteration_steps [OF assms] Cons.IH concat.simps list.map
        performSteps_append)
qed


lemma performSteps_calls:
  "\<exists>cs. snd (performSteps E steps h) = h @ cs \<and>
        map Inr cs = take (length cs) steps \<and>
        (\<forall>k. 0 < k \<and> k < length cs \<longrightarrow> outcome E (h @ take k cs) = None) \<and>
        (fst (performSteps E steps h) = None \<longrightarrow>
           length cs = length steps \<and> (cs \<noteq> [] \<longrightarrow> outcome E (h @ cs) = None)) \<and>
        (\<forall>err. fst (performSteps E steps h) = Some err \<longrightarrow>
           (cs \<noteq> [] \<and> outcome E (h @ cs) = Some err) \<or>
           (length cs < length steps \<and> steps ! length cs = Inl err))"
proof (induction E steps h rule: performSteps.induct)
  case (1 E h)
  show ?case by simp
next
  case (2 E err steps h)
  show ?case by simp
next
  case (3 E c steps h)
  show ?case
  proof (cases "outcome E (h @ [c])")
    case (Some err)
    then show ?thesis
      by (intro exI [of _ "[c]"]) simp
  next
    case None
    from 3 [OF None] obtain cs where cs:
      "snd (performSteps E steps (h @ [c])) = (h @ [c]) @ cs"
      "map Inr cs = take (length cs) steps"
      "\<forall>k. 0 < k \<and> k < length cs \<longrightarrow> outcome E ((h @ [c]) @ take k cs) = None"
      "fst (performSteps E steps (h @ [c])) = None \<longrightarrow>
         length cs = length steps \<and> (cs \<noteq> [] \<longrightarrow> outcome E ((h @ [c]) @ cs) = None)"
      "\<forall>err. fst (performSteps E steps (h @ [c])) = Some err \<longrightarrow>
         (cs \<noteq> [] \<and> outcome E ((h @ [c]) @ cs) = Some err) \<or>
         (length cs < length steps \<and> steps ! length cs = Inl err)"
      by (elim exE conjE) (rule that)
    have early: "outcome E (h @ take k (c # cs)) = None" if "0 < k" "k < length (c # cs)" for k
    proof (cases k)
      case 0
      then show ?thesis using that by simp
    next
      case (Suc j)
      show ?thesis
      proof (cases j)
        case 0
        then show ?thesis using Suc None by simp
      next
        case (Suc i)
        then show ?thesis using cs(3) that \<open>k = Suc j\<close> by simp
      qed
    qed
    show ?thesis
    proof (intro exI [of _ "c # cs"] conjI allI impI)
      show "snd (performSteps E (Inr c # steps) h) = h @ c # cs"
        using None cs(1) by simp
      show "map Inr (c # cs) = take (length (c # cs)) (Inr c # steps)"
        using cs(2) by simp
      show "outcome E (h @ take k (c # cs)) = None" if "0 < k \<and> k < length (c # cs)" for k
        using early that by blast
      show "length (c # cs) = length (Inr c # steps)"
        if "fst (performSteps E (Inr c # steps) h) = None"
        using that None cs(4) by simp
      show "outcome E (h @ c # cs) = None"
        if "fst (performSteps E (Inr c # steps) h) = None" "c # cs \<noteq> []"
        using that None cs(4) by (cases cs) simp_all
      show "c # cs \<noteq> [] \<and> outcome E (h @ c # cs) = Some err \<or>
            length (c # cs) < length (Inr c # steps) \<and> (Inr c # steps) ! length (c # cs) = Inl err"
        if "fst (performSteps E (Inr c # steps) h) = Some err" for err
        using that None cs(5) by (cases cs) auto
    qed
  qed
qed

lemma Run_halts_in_loop:
  assumes "resolveServerId E pic0 h0 = (Inr pic, h1)"
      and "detectTechnologies E pic h1 = (Inr ts, h)"
      and "fst (forTechnologies E d pic ts h) = Some err"
  shows "Run E d pic0 h0 = (Some err, pic, snd (forTechnologies E d pic ts h))"
  using assms by (cases "forTechnologies E d pic ts h") (simp add: Run_def)

text \<open>
  C4. With \<^verbatim>\<open>errorutils.CheckError\<close> handing errors on as they are, the loop of
  \<^verbatim>\<open>Run\<close> carries out the plan of the spec: for each technology in turn the calls
  for the local, the remote and the virtual repository, the creation of the directory
  and the write of the deployment config.  The calls it issues are an initial part of
  that plan, in order; every call but the last returned no error; it issues the whole
  plan when it returns no error, and otherwise it stops at the first error, which it
  returns as it is (the error of the last call issued, or of the failed
  serialization).  \<^verbatim>\<open>Run\<close> then returns the same error without a further call.
\<close>

theorem provisioning_then_config_or_halt:
  assumes "\<forall>x. CheckError d x = x"
  shows
   "forTechnologies E d pic ts h = performSteps E (concat (map (technologySteps d pic) ts)) h \<and>
    (\<exists>cs. snd (forTechnologies E d pic ts h) = h @ cs \<and>
       map Inr cs = take (length cs) (concat (map (technologySteps d pic) ts)) \<and>
       (\<forall>k. 0 < k \<and> k < length cs \<longrightarrow> outcome E (h @ take k cs) = None) \<and>
       (fst (forTechnologies E d pic ts h) = None \<longrightarrow>
          length cs = length (concat (map (technologySteps d pic) ts)) \<and>
          (cs \<noteq> [] \<longrightarrow> outcome E (h @ cs) = None)) \<and>
       (\<forall>err. fst (forTechnologies E d pic ts h) = Some err \<longrightarrow>
          (cs \<noteq> [] \<and> outcome E (h @ cs) = Some err) \<or>
          (length cs < length (concat (map (technologySteps d pic) ts)) \<and>
           concat (map (technologySteps d pic) ts) ! length cs = Inl err))) \<and>
    (\<forall>pic0 h0 h1 err.
       resolveServerId E pic0 h0 = (Inr pic, h1) \<and> detectTechnologies E pic h1 = (Inr ts, h) \<and>
       fst (forTechnologies E d pic ts h) = Some err \<longrightarrow>
       Run E d pic0 h0 = (Some err, pic, snd (forTechnologies E d pic ts h)))"
proof (intro conjI)
  show "forTechnologies E d pic ts h =
        performSteps E (concat (map (technologySteps d pic) ts)) h"
    by (rule forTechnologies_steps [OF assms])
  show "\<exists>cs. snd (forTechnologies E d pic ts h) = h @ cs \<and>
       map Inr cs = take (length cs) (concat (map (technologySteps d pic) ts)) \<and>
       (\<forall>k. 0 < k \<and> k < length cs \<longrightarrow> outcome E (h @ take k cs) = None) \<and>
       (fst (forTechnologies E d pic ts h) = None \<longrightarrow>
          length cs = length (concat (map (technologySteps d pic) ts)) \<and>
          (cs \<noteq> [] \<longrightarrow> outcome E (h @ cs) = None)) \<and>
       (\<forall>err. fst (forTechnologies E d pic ts h) = Some err \<longrightarrow>
          (cs \<noteq> [] \<and> outcome E (h @ cs) = Some err) \<or>
          (length cs < length (concat (map (technologySteps d pic) ts)) \<and>
           concat (map (technologySteps d pic) ts) ! length cs = Inl err))"
    using performSteps_calls [of E "concat (map (technologySteps d pic) ts)" h]
    unfolding forTechnologies_steps [OF assms, symmetric] .
  show "\<forall>pic0 h0 h1 err.
       resolveServerId E pic0 h0 = (Inr pic, h1) \<and> detectTechnologies E pic h1 = (Inr ts, h) \<and>
       fst (forTechnologies E d pic ts h) = Some err \<longrightarrow>
       Run E d pic0 h0 = (Some err, pic, snd (forTechnologies E d pic ts h))"
    by (intro allI impI, elim conjE) (rule Run_halts_in_loop)
qed

lemma demoDecls_CheckError: "\<forall>x. CheckError demoDecls x = x"
  by (simp add: demoDecls_def)

theorem provisioning_then_config_or_halt_witness:
  "forTechnologies remoteFails demoDecls demoCommand [''Maven'', ''npm'']
     [DetectTechnologies ''/tmp/p/myapp'' False False] =
     (Some (Error ''403 Forbidden''),
      [DetectTechnologies ''/tmp/p/myapp'' False False,
       CreateDefaultLocalRepo ''Maven'' ''local-server'',
       CreateDefaultRemoteRepo ''Maven'' ''local-server'',
       CreateDefaultVirtualRepo ''Maven'' ''local-server'',
       CreateDirIfNotExist ''/tmp/p/myapp/.jfrog/projects'',
       WriteFile ''/tmp/p/myapp/.jfrog/projects/maven.yaml'' mavenYaml 420,
       CreateDefaultLocalRepo ''npm'' ''local-server'',
       CreateDefaultRemoteRepo ''npm'' ''local-server'']) \<and>
   Run remoteFails demoDecls demoCommand [] =
     (Some (Error ''403 Forbidden''), demoCommand,
      [DetectTechnologies ''/tmp/p/myapp'' False False,
       CreateDefaultLocalRepo ''Maven'' ''local-server'',
       CreateDefaultRemoteRepo ''Maven'' ''local-server'',
       CreateDefaultVirtualRepo ''Maven'' ''local-server'',
       CreateDirIfNotExist ''/tmp/p/myapp/.jfrog/projects'',
       WriteFile ''/tmp/p/myapp/.jfrog/projects/maven.yaml'' mavenYaml 420,
       CreateDefaultLocalRepo ''npm'' ''local-server'',
       CreateDefaultRemoteRepo ''npm'' ''local-server''])"
proof -
  note inst = provisioning_then_config_or_halt [OF demoDecls_CheckError, of remoteFails
      demoCommand "[''Maven'', ''npm'']" "[DetectTechnologies ''/tmp/p/myapp'' False False]"]
  have steps: "performSteps remoteFails
       (concat (map (technologySteps demoDecls demoCommand) [''Maven'', ''npm'']))
       [DetectTechnologies ''/tmp/p/myapp'' False False] =
     (Some (Error ''403 Forbidden''),
      [DetectTechnologies ''/tmp/p/myapp'' False False,
       CreateDefaultLocalRepo ''Maven'' ''local-server'',
       CreateDefaultRemoteRepo ''Maven'' ''local-server'',
       CreateDefaultVirtualRepo ''Maven'' ''local-server'',
       CreateDirIfNotExist ''/tmp/p/myapp/.jfrog/projects'',
       WriteFile ''/tmp/p/myapp/.jfrog/projects/maven.yaml'' mavenYaml 420,
       CreateDefaultLocalRepo ''npm'' ''local-server'',
       CreateDefaultRemoteRepo ''npm'' ''local-server''])"
    unfolding mavenYaml_def by code_simp
  have loop: "forTechnologies remoteFails demoDecls demoCommand [''Maven'', ''npm'']
     [DetectTechnologies ''/tmp/p/myapp'' False False] =
     (Some (Error ''403 Forbidden''),
      [DetectTechnologies ''/tmp/p/myapp'' False False,
       CreateDefaultLocalRepo ''Maven'' ''local-server'',
       CreateDefaultRemoteRepo ''Maven'' ''local-server'',
       CreateDefaultVirtualRepo ''Maven'' ''local-server'',
       CreateDirIfNotExist ''/tmp/p/myapp/.jfrog/projects'',
       WriteFile ''/tmp/p/myapp/.jfrog/projects/maven.yaml'' mavenYaml 420,
       CreateDefaultLocalRepo ''npm'' ''local-server'',
       CreateDefaultRemoteRepo ''npm'' ''local-server''])"
    using inst steps by simp
  have res: "resolveServerId remoteFails demoCommand [] = (Inr demoCommand, [])"
    by (simp add: resolveServerId_def demoCommand_def)
  have det: "detectTechnologies remoteFails demoCommand [] =
             (Inr [''Maven'', ''npm''], [DetectTechnologies ''/tmp/p/myapp'' False False])"
    by (simp add: detectTechnologies_def remoteFails_def demoCommand_def)
  from inst res det loop show ?thesis by simp
qed


section \<open>The steps of Run\<close>

lemma newCalls_append [simp]:
  "newCalls h (h @ cs) = cs" "newCalls h ((h @ cs) @ cs') = cs @ cs'" "newCalls h h = []"
  by (simp_all add: newCalls_def)

lemma resolveServerId_cases:
  assumes "resolveServerId E pic h = (Inr pic1, h0)"
  shows "projectPath pic1 = projectPath pic \<and>
         (h0 = h \<or> h0 = h @ [GetSpecificConfig [] True False])"
  using assms
  by (auto simp: resolveServerId_def Let_def split: if_splits sum.splits)

lemma detectTechnologies_trace:
  assumes "detectTechnologies E pic h = (res, h1)"
  shows "h1 = h @ [DetectTechnologies (projectPath pic) False False] \<or>
         h1 = h @ [DetectTechnologies (projectPath pic) False False,
                   DetectTechnologies (projectPath pic) False True]"
  using assms
  by (auto simp: detectTechnologies_def Let_def split: if_splits sum.splits)

lemma buildConfigFile_path:
  "projectPath pic1 = projectPath pic \<Longrightarrow> buildConfigFile pic1 = buildConfigFile pic"
  by (simp add: buildConfigFile_def)

lemma Run_after_loop:
  assumes "resolveServerId E pic h = (Inr pic1, h0)"
      and "detectTechnologies E pic1 h0 = (Inr ts, h1)"
      and "forTechnologies E d pic1 ts h1 = (None, h2)"
  shows "Run E d pic h =
     (case createBuildConfig E d pic1 h2 of
        (Some err, h3) \<Rightarrow> (Some err, pic1, h3)
      | (None, h3) \<Rightarrow>
          (outcome E (h3 @ [Println, PrintTable [] [] (createSummarizeMessage d ts)]), pic1,
           h3 @ [Println, PrintTable [] [] (createSummarizeMessage d ts), Println]))"
  using assms by (simp add: Run_def invoke_def split: prod.split option.split)

lemma createDefaultReposIfNeeded_extends:
  "prefix h (snd (createDefaultReposIfNeeded E tech sid h))"
  by (simp add: createDefaultReposIfNeeded_def invoke_def split: option.split)

lemma createProjectBuildConfigs_extends:
  "prefix h (snd (createProjectBuildConfigs E d tech path sid h))"
  by (simp add: createProjectBuildConfigs_trace)

lemma createBuildConfig_extends: "prefix h (snd (createBuildConfig E d pic h))"
  by (simp add: createBuildConfig_trace)

lemma forTechnologies_extends: "prefix h (snd (forTechnologies E d pic ts h))"
proof (induction ts arbitrary: h)
  case Nil
  show ?case by simp
next
  case (Cons tech ts)
  obtain r1 h1 where a: "createDefaultReposIfNeeded E tech (serverId pic) h = (r1, h1)"
    by (cases "createDefaultReposIfNeeded E tech (serverId pic) h")
  obtain r2 h2 where
    b: "createProjectBuildConfigs E d tech (projectPath pic) (serverId pic) h1 = (r2, h2)"
    by (cases "createProjectBuildConfigs E d tech (projectPath pic) (serverId pic) h1")
  have p1: "prefix h h1" using createDefaultReposIfNeeded_extends [of h E tech "serverId pic"] a
    by simp
  have p2: "prefix h1 h2"
    using createProjectBuildConfigs_extends [of h1 E d tech "projectPath pic" "serverId pic"] b
    by simp
  have p3: "prefix h2 (snd (forTechnologies E d pic ts h2))" by (rule Cons.IH)
  show ?case
  proof (cases r1)
    case (Some err)
    then show ?thesis using a p1 by simp
  next
    case None
    show ?thesis
    proof (cases r2)
      case (Some err)
      then show ?thesis using a b None p1 p2 by (auto intro: prefix_order.trans)
    next
      case None2: None
      then show ?thesis using a b None p1 p2 p3
        by (auto intro: prefix_order.trans)
    qed
  qed
qed

lemma Run_detection_step:
  assumes "resolveServerId E pic0 h0 = (Inr pic, h)"
  shows "prefix (snd (detectTechnologies E pic h)) (snd (snd (Run E d pic0 h0)))"
    and "fst (detectTechnologies E pic h) = Inl err \<Longrightarrow>
         Run E d pic0 h0 = (Some err, pic, snd (detectTechnologies E pic h))"
    and "fst (detectTechnologies E pic h) = Inr ts \<Longrightarrow>
         prefix (snd (forTechnologies E d pic ts (snd (detectTechnologies E pic h))))
           (snd (snd (Run E d pic0 h0)))"
proof -
  obtain r1 h1 where dt: "detectTechnologies E pic h = (r1, h1)"
    by (cases "detectTechnologies E pic h")
  show "fst (detectTechnologies E pic h) = Inl err \<Longrightarrow>
         Run E d pic0 h0 = (Some err, pic, snd (detectTechnologies E pic h))"
    using assms dt by (simp add: Run_def)
  have loop: "prefix (snd (forTechnologies E d pic ts h1)) (snd (snd (Run E d pic0 h0)))"
    if r1: "r1 = Inr ts" for ts
  proof -
    obtain r2 h2 where l: "forTechnologies E d pic ts h1 = (r2, h2)"
      by (cases "forTechnologies E d pic ts h1")
    obtain r3 h3 where b: "createBuildConfig E d pic h2 = (r3, h3)"
      by (cases "createBuildConfig E d pic h2")
    have p3: "prefix h2 h3" using createBuildConfig_extends [of h2 E d pic] b by simp
    show ?thesis
    proof (cases r2)
      case (Some e)
      then show ?thesis using assms dt r1 l by (simp add: Run_def)
    next
      case None
      then show ?thesis using assms dt r1 l b p3
        by (cases r3) (auto simp: Run_def invoke_def intro: prefix_order.trans)
    qed
  qed
  then show "fst (detectTechnologies E pic h) = Inr ts \<Longrightarrow>
         prefix (snd (forTechnologies E d pic ts (snd (detectTechnologies E pic h))))
           (snd (snd (Run E d pic0 h0)))"
    using dt by simp
  show "prefix (snd (detectTechnologies E pic h)) (snd (snd (Run E d pic0 h0)))"
  proof (cases r1)
    case (Inl e)
    then show ?thesis using assms dt by (simp add: Run_def)
  next
    case (Inr ts)
    have "prefix h1 (snd (forTechnologies E d pic ts h1))" by (rule forTechnologies_extends)
    with loop [OF Inr] show ?thesis using dt by (auto intro: prefix_order.trans)
  qed
qed

section \<open>Detection\<close>

text \<open>
  C1. \<^verbatim>\<open>detectTechnologies\<close> first calls the detector on the project path without
  recursion.  It calls the detector a second time, with recursion, exactly when the
  first call returned the empty set without an error; its result is then the result of
  the second call, and the result of the first call otherwise.  This is the detection
  step of \<^verbatim>\<open>Run\<close>: once the server identifier is resolved, the trace of \<^verbatim>\<open>Run\<close>
  goes on with these calls, an error of the detection is the error of \<^verbatim>\<open>Run\<close>, and
  a detected set is the one the loop of \<^verbatim>\<open>Run\<close> goes through.
\<close>

theorem detect_root_then_recursive:
  "detectTechnologies E pic h =
     (if detected E (h @ [DetectTechnologies (projectPath pic) False False]) = Inr []
      then (detected E (h @ [DetectTechnologies (projectPath pic) False False,
                             DetectTechnologies (projectPath pic) False True]),
            h @ [DetectTechnologies (projectPath pic) False False,
                 DetectTechnologies (projectPath pic) False True])
      else (detected E (h @ [DetectTechnologies (projectPath pic) False False]),
            h @ [DetectTechnologies (projectPath pic) False False])) \<and>
   (\<forall>pic0 h0. resolveServerId E pic0 h0 = (Inr pic, h) \<longrightarrow>
      prefix (snd (detectTechnologies E pic h)) (snd (snd (Run E d pic0 h0))) \<and>
      (\<forall>err. fst (detectTechnologies E pic h) = Inl err \<longrightarrow>
         Run E d pic0 h0 = (Some err, pic, snd (detectTechnologies E pic h))) \<and>
      (\<forall>ts. fst (detectTechnologies E pic h) = Inr ts \<longrightarrow>
         prefix (snd (forTechnologies E d pic ts (snd (detectTechnologies E pic h))))
           (snd (snd (Run E d pic0 h0)))))"
proof (intro conjI allI impI)
  show "detectTechnologies E pic h =
     (if detected E (h @ [DetectTechnologies (projectPath pic) False False]) = Inr []
      then (detected E (h @ [DetectTechnologies (projectPath pic) False False,
                             DetectTechnologies (projectPath pic) False True]),
            h @ [DetectTechnologies (projectPath pic) False False,
                 DetectTechnologies (projectPath pic) False True])
      else (detected E (h @ [DetectTechnologies (projectPath pic) False False]),
            h @ [DetectTechnologies (projectPath pic) False False]))"
    by (simp add: detectTechnologies_def Let_def split: sum.split)
qed (rule Run_detection_step; assumption)+

theorem detect_root_then_recursive_witness:
  "detectTechnologies nestedMaven demoCommand [] =
     (Inr [''Maven''], [DetectTechnologies ''/tmp/p/myapp'' False False,
                        DetectTechnologies ''/tmp/p/myapp'' False True]) \<and>
   detectTechnologies rootNpm demoCommand [] =
     (Inr [''npm''], [DetectTechnologies ''/tmp/p/myapp'' False False]) \<and>
   resolveServerId nestedMaven demoCommand [] = (Inr demoCommand, []) \<and>
   prefix [DetectTechnologies ''/tmp/p/myapp'' False False,
           DetectTechnologies ''/tmp/p/myapp'' False True]
     (snd (snd (Run nestedMaven demoDecls demoCommand [])))"
proof -
  note a = detect_root_then_recursive [of nestedMaven demoCommand "[]" demoDecls]
  note b = detect_root_then_recursive [of rootNpm demoCommand "[]" demoDecls]
  have res: "resolveServerId nestedMaven demoCommand [] = (Inr demoCommand, [])"
    by (simp add: resolveServerId_def demoCommand_def)
  have d1: "detectTechnologies nestedMaven demoCommand [] =
     (Inr [''Maven''], [DetectTechnologies ''/tmp/p/myapp'' False False,
                        DetectTechnologies ''/tmp/p/myapp'' False True])"
    using a by (simp add: nestedMaven_def demoCommand_def)
  have d2: "detectTechnologies rootNpm demoCommand [] =
     (Inr [''npm''], [DetectTechnologies ''/tmp/p/myapp'' False False])"
    using b by (simp add: rootNpm_def demoCommand_def)
  from a res have "prefix (snd (detectTechnologies nestedMaven demoCommand []))
     (snd (snd (Run nestedMaven demoDecls demoCommand [])))" by blast
  with d1 d2 res show ?thesis by simp
qed

section \<open>The summary\<close>

text \<open>
  C9. When the server identifier is resolved, the technologies are detected, and the
  loop and the build config succeed, the summary step of \<^verbatim>\<open>Run\<close> adds three calls
  to the trace and nothing else: a blank line, the call of \<^verbatim>\<open>PrintTable\<close> with the
  summary, a blank line.  None of them is a provisioning call or a write, so the
  completed initialization stays as it is.  \<^verbatim>\<open>Run\<close> returns exactly what that one
  output call returned: it succeeds exactly when the printing succeeds, and an error
  it returns is the error of the printing call, as it is.  Composing the summary
  raises no error of its own.
\<close>

theorem run_returns_print_outcome:
  assumes "resolveServerId E pic h = (Inr pic1, h0)"
      and "detectTechnologies E pic1 h0 = (Inr ts, h1)"
      and "forTechnologies E d pic1 ts h1 = (None, h2)"
      and "createBuildConfig E d pic1 h2 = (None, h3)"
  shows
   "Run E d pic h =
      (outcome E (h3 @ [Println, PrintTable [] [] (createSummarizeMessage d ts)]), pic1,
       h3 @ [Println, PrintTable [] [] (createSummarizeMessage d ts), Println]) \<and>
    newCalls h3 (snd (snd (Run E d pic h))) =
      [Println, PrintTable [] [] (createSummarizeMessage d ts), Println] \<and>
    (\<forall>c\<in>set (newCalls h3 (snd (snd (Run E d pic h)))).
       \<not> isProvisioning c \<and> \<not> isWriteFile c) \<and>
    (fst (Run E d pic h) = None \<longleftrightarrow>
       outcome E (h3 @ [Println, PrintTable [] [] (createSummarizeMessage d ts)]) = None) \<and>
    (\<forall>err. fst (Run E d pic h) = Some err \<longrightarrow>
       outcome E (h3 @ [Println, PrintTable [] [] (createSummarizeMessage d ts)]) = Some err)"
proof -
  have run: "Run E d pic h =
      (outcome E (h3 @ [Println, PrintTable [] [] (createSummarizeMessage d ts)]), pic1,
       h3 @ [Println, PrintTable [] [] (createSummarizeMessage d ts), Println])"
    using Run_after_loop [OF assms(1,2,3)] assms(4) by simp
  show ?thesis unfolding run by simp
qed

lemma rootNpm_steps:
  "resolveServerId rootNpm demoCommand [] = (Inr demoCommand, [])"
  "detectTechnologies rootNpm demoCommand [] =
     (Inr [''npm''], [DetectTechnologies ''/tmp/p/myapp'' False False])"
  "forTechnologies rootNpm demoDecls demoCommand [''npm'']
     [DetectTechnologies ''/tmp/p/myapp'' False False] =
     (None, [DetectTechnologies ''/tmp/p/myapp'' False False,
             CreateDefaultLocalRepo ''npm'' ''local-server'',
             CreateDefaultRemoteRepo ''npm'' ''local-server'',
             CreateDefaultVirtualRepo ''npm'' ''local-server'',
             CreateDirIfNotExist ''/tmp/p/myapp/.jfrog/projects'',
             WriteFile ''/tmp/p/myapp/.jfrog/projects/npm.yaml'' npmYaml 420])"
  "createBuildConfig rootNpm demoDecls demoCommand
     [DetectTechnologies ''/tmp/p/myapp'' False False,
      CreateDefaultLocalRepo ''npm'' ''local-server'',
      CreateDefaultRemoteRepo ''npm'' ''local-server'',
      CreateDefaultVirtualRepo ''npm'' ''local-server'',
      CreateDirIfNotExist ''/tmp/p/myapp/.jfrog/projects'',
      WriteFile ''/tmp/p/myapp/.jfrog/projects/npm.yaml'' npmYaml 420] =
     (None, [DetectTechnologies ''/tmp/p/myapp'' False False,
             CreateDefaultLocalRepo ''npm'' ''local-server'',
             CreateDefaultRemoteRepo ''npm'' ''local-server'',
             CreateDefaultVirtualRepo ''npm'' ''local-server'',
             CreateDirIfNotExist ''/tmp/p/myapp/.jfrog/projects'',
             WriteFile ''/tmp/p/myapp/.jfrog/projects/npm.yaml'' npmYaml 420,
             CreateDirIfNotExist ''/tmp/p/myapp/.jfrog/projects'',
             WriteFile ''/tmp/p/myapp/.jfrog/projects/build.yaml'' (buildYaml ''p'') 420])"
  unfolding npmYaml_def buildYaml_def by code_simp+

lemma printFails_steps:
  "resolveServerId printFails demoCommand [] = (Inr demoCommand, [])"
  "detectTechnologies printFails demoCommand [] =
     (Inr [''npm''], [DetectTechnologies ''/tmp/p/myapp'' False False])"
  "forTechnologies printFails demoDecls demoCommand [''npm'']
     [DetectTechnologies ''/tmp/p/myapp'' False False] =
     (None, [DetectTechnologies ''/tmp/p/myapp'' False False,
             CreateDefaultLocalRepo ''npm'' ''local-server'',
             CreateDefaultRemoteRepo ''npm'' ''local-server'',
             CreateDefaultVirtualRepo ''npm'' ''local-server'',
             CreateDirIfNotExist ''/tmp/p/myapp/.jfrog/projects'',
             WriteFile ''/tmp/p/myapp/.jfrog/projects/npm.yaml'' npmYaml 420])"
  "createBuildConfig printFails demoDecls demoCommand
     [DetectTechnologies ''/tmp/p/myapp'' False False,
      CreateDefaultLocalRepo ''npm'' ''local-server'',
      CreateDefaultRemoteRepo ''npm'' ''local-server'',
      CreateDefaultVirtualRepo ''npm'' ''local-server'',
      CreateDirIfNotExist ''/tmp/p/myapp/.jfrog/projects'',
      WriteFile ''/tmp/p/myapp/.jfrog/projects/npm.yaml'' npmYaml 420] =
     (None, [DetectTechnologies ''/tmp/p/myapp'' False False,
             CreateDefaultLocalRepo ''npm'' ''local-server'',
             CreateDefaultRemoteRepo ''npm'' ''local-server'',
             CreateDefaultVirtualRepo ''npm'' ''local-server'',
             CreateDirIfNotExist ''/tmp/p/myapp/.jfrog/projects'',
             WriteFile ''/tmp/p/myapp/.jfrog/projects/npm.yaml'' npmYaml 420,
             CreateDirIfNotExist ''/tmp/p/myapp/.jfrog/projects'',
             WriteFile ''/tmp/p/myapp/.jfrog/projects/build.yaml'' (buildYaml ''p'') 420])"
  unfolding npmYaml_def buildYaml_def by code_simp+

theorem run_returns_print_outcome_witness:
  "Run rootNpm demoDecls demoCommand [] =
     (None, demoCommand,
      [DetectTechnologies ''/tmp/p/myapp'' False False,
       CreateDefaultLocalRepo ''npm'' ''local-server'',
       CreateDefaultRemoteRepo ''npm'' ''local-server'',
       CreateDefaultVirtualRepo ''npm'' ''local-server'',
       CreateDirIfNotExist ''/tmp/p/myapp/.jfrog/projects'',
       WriteFile ''/tmp/p/myapp/.jfrog/projects/npm.yaml'' npmYaml 420,
       CreateDirIfNotExist ''/tmp/p/myapp/.jfrog/projects'',
       WriteFile ''/tmp/p/myapp/.jfrog/projects/build.yaml'' (buildYaml ''p'') 420,
       Println,
       PrintTable [] [] (createSummarizeMessage demoDecls [''npm'']),
       Println]) \<and>
   Run printFails demoDecls demoCommand [] =
     (Some (Error ''write /dev/stdout: broken pipe''), demoCommand,
      [DetectTechnologies ''/tmp/p/myapp'' False False,
       CreateDefaultLocalRepo ''npm'' ''local-server'',
       CreateDefaultRemoteRepo ''npm'' ''local-server'',
       CreateDefaultVirtualRepo ''npm'' ''local-server'',
       CreateDirIfNotExist ''/tmp/p/myapp/.jfrog/projects'',
       WriteFile ''/tmp/p/myapp/.jfrog/projects/npm.yaml'' npmYaml 420,
       CreateDirIfNotExist ''/tmp/p/myapp/.jfrog/projects'',
       WriteFile ''/tmp/p/myapp/.jfrog/projects/build.yaml'' (buildYaml ''p'') 420,
       Println,
       PrintTable [] [] (createSummarizeMessage demoDecls [''npm'']),
       Println])"
proof -
  note ok = run_returns_print_outcome [OF rootNpm_steps, THEN conjunct1]
  note failing = run_returns_print_outcome [OF printFails_steps, THEN conjunct1]
  show ?thesis using ok failing by (simp add: rootNpm_def printFails_def)
qed

section \<open>No technology detected\<close>

text \<open>
  C5. When the detection step of \<^verbatim>\<open>Run\<close> returns the empty set, \<^verbatim>\<open>Run\<close> goes
  from the detection straight to the build config: among the calls it adds to the trace
  there is no repository provisioning call, and the only write is the one of the
  top-level build config (absent when the directory cannot be created or the record
  cannot be serialized).
\<close>

theorem no_technology_only_build_config:
  assumes "resolveServerId E pic h = (Inr pic1, h0)"
      and "detectTechnologies E pic1 h0 = (Inr [], h1)"
  shows
   "Run E d pic h =
      (case createBuildConfig E d pic1 h1 of
         (Some err, h3) \<Rightarrow> (Some err, pic1, h3)
       | (None, h3) \<Rightarrow>
           (outcome E (h3 @ [Println, PrintTable [] [] (createSummarizeMessage d [])]), pic1,
            h3 @ [Println, PrintTable [] [] (createSummarizeMessage d []), Println])) \<and>
    (\<forall>c\<in>set (newCalls h (snd (snd (Run E d pic h)))). \<not> isProvisioning c) \<and>
    filter isWriteFile (newCalls h (snd (snd (Run E d pic h)))) =
      (if outcome E (h1 @ [CreateDirIfNotExist (jfrogProjectDir (projectPath pic))]) = None
       then (case MarshalBuildConfigFile d (buildConfigFile pic) of
               Inl err \<Rightarrow> []
             | Inr b \<Rightarrow> [WriteFile (buildConfigPath (projectPath pic)) b 420])
       else [])"
proof -
  have run: "Run E d pic h =
      (case createBuildConfig E d pic1 h1 of
         (Some err, h3) \<Rightarrow> (Some err, pic1, h3)
       | (None, h3) \<Rightarrow>
           (outcome E (h3 @ [Println, PrintTable [] [] (createSummarizeMessage d [])]), pic1,
            h3 @ [Println, PrintTable [] [] (createSummarizeMessage d []), Println]))"
    using Run_after_loop [OF assms, of d h1] by simp
  from resolveServerId_cases [OF assms(1)] have path: "projectPath pic1 = projectPath pic"
    and h0: "h0 = h \<or> h0 = h @ [GetSpecificConfig [] True False]" by simp_all
  from detectTechnologies_trace [OF assms(2)] path
  have h1: "h1 = h0 @ [DetectTechnologies (projectPath pic) False False] \<or>
            h1 = h0 @ [DetectTechnologies (projectPath pic) False False,
                       DetectTechnologies (projectPath pic) False True]"
    by simp
  from h0 h1 obtain pre where pre: "h1 = h @ pre" "\<forall>c\<in>set pre. \<not> isProvisioning c"
    "filter isWriteFile pre = []"
    by auto
  define dir where "dir = CreateDirIfNotExist (jfrogProjectDir (projectPath pic))"
  define wr where "wr = (if outcome E (h1 @ [dir]) = None
       then (case MarshalBuildConfigFile d (buildConfigFile pic) of
               Inl err \<Rightarrow> []
             | Inr b \<Rightarrow> [WriteFile (buildConfigPath (projectPath pic)) b 420])
       else [])"
  have tr: "snd (createBuildConfig E d pic1 h1) = h @ pre @ dir # wr"
    using createBuildConfig_trace [of E d pic1 h1, unfolded path buildConfigFile_path [OF path]]
    unfolding dir_def wr_def pre(1) by simp
  have wr_only: "\<forall>c\<in>set wr. \<not> isProvisioning c" "filter isWriteFile wr = wr"
    by (cases "outcome E (h1 @ [dir])"; cases "MarshalBuildConfigFile d (buildConfigFile pic)";
        simp add: wr_def)+
  obtain r3 h3 where b: "createBuildConfig E d pic1 h1 = (r3, h3)" by (cases "createBuildConfig E d pic1 h1")
  with tr have h3: "h3 = h @ pre @ dir # wr" by simp
  have "\<exists>post. snd (snd (Run E d pic h)) = h @ pre @ dir # wr @ post \<and>
          (\<forall>c\<in>set post. \<not> isProvisioning c) \<and> filter isWriteFile post = []"
    unfolding run b using h3 by (cases r3) simp_all
  then obtain post where post: "snd (snd (Run E d pic h)) = h @ pre @ dir # wr @ post"
    "\<forall>c\<in>set post. \<not> isProvisioning c" "filter isWriteFile post = []"
    by blast
  have "\<forall>c\<in>set (newCalls h (snd (snd (Run E d pic h)))). \<not> isProvisioning c"
    using pre(2) wr_only(1) post(2) by (auto simp: post(1) dir_def)
  moreover have "filter isWriteFile (newCalls h (snd (snd (Run E d pic h)))) = wr"
    using pre(3) wr_only(2) post(3) by (simp add: post(1) dir_def)
  ultimately show ?thesis using run by (simp add: wr_def dir_def)
qed

lemma noManifest_steps:
  "resolveServerId noManifest demoCommand [] = (Inr demoCommand, [])"
  "detectTechnologies noManifest demoCommand [] =
     (Inr [], [DetectTechnologies ''/tmp/p/myapp'' False False,
               DetectTechnologies ''/tmp/p/myapp'' False True])"
  by (simp_all add: resolveServerId_def detectTechnologies_def noManifest_def demoCommand_def)

theorem no_technology_only_build_config_witness:
  "Run noManifest demoDecls demoCommand [] =
     (None, demoCommand,
      [DetectTechnologies ''/tmp/p/myapp'' False False,
       DetectTechnologies ''/tmp/p/myapp'' False True,
       CreateDirIfNotExist ''/tmp/p/myapp/.jfrog/projects'',
       WriteFile ''/tmp/p/myapp/.jfrog/projects/build.yaml'' (buildYaml ''p'') 420,
       Println,
       PrintTable [] [] (createSummarizeMessage demoDecls []),
       Println]) \<and>
   filter isWriteFile (newCalls [] (snd (snd (Run noManifest demoDecls demoCommand [])))) =
     [WriteFile ''/tmp/p/myapp/.jfrog/projects/build.yaml'' (buildYaml ''p'') 420]"
proof -
  note inst = no_technology_only_build_config [OF noManifest_steps, of demoDecls]
  have b: "createBuildConfig noManifest demoDecls demoCommand
       [DetectTechnologies ''/tmp/p/myapp'' False False,
        DetectTechnologies ''/tmp/p/myapp'' False True] =
     (None, [DetectTechnologies ''/tmp/p/myapp'' False False,
             DetectTechnologies ''/tmp/p/myapp'' False True,
             CreateDirIfNotExist ''/tmp/p/myapp/.jfrog/projects'',
             WriteFile ''/tmp/p/myapp/.jfrog/projects/build.yaml'' (buildYaml ''p'') 420])"
    unfolding buildYaml_def by code_simp
  have ok: "outcome noManifest x = None" for x by (simp add: noManifest_def)
  have run: "Run noManifest demoDecls demoCommand [] =
     (None, demoCommand,
      [DetectTechnologies ''/tmp/p/myapp'' False False,
       DetectTechnologies ''/tmp/p/myapp'' False True,
       CreateDirIfNotExist ''/tmp/p/myapp/.jfrog/projects'',
       WriteFile ''/tmp/p/myapp/.jfrog/projects/build.yaml'' (buildYaml ''p'') 420,
       Println,
       PrintTable [] [] (createSummarizeMessage demoDecls []),
       Println])"
    using inst by (simp add: b ok)
  then show ?thesis by (simp add: newCalls_def)
qed


section \<open>Running twice\<close>

lemma createDefaultReposIfNeeded_success:
  assumes "createDefaultReposIfNeeded E tech sid h = (None, h')"
  shows "h' = h @ [CreateDefaultLocalRepo tech sid, CreateDefaultRemoteRepo tech sid,
                   CreateDefaultVirtualRepo tech sid]"
  using assms
  by (auto simp: createDefaultReposIfNeeded_def invoke_def split: option.splits)

lemma createProjectBuildConfigs_success:
  assumes "\<forall>x. CheckError d x = x"
      and "createProjectBuildConfigs E d tech path sid h = (None, h')"
  shows "h' = h @ [CreateDirIfNotExist (jfrogProjectDir path), deploymentWrite d path sid tech]"
proof (cases "outcome E (h @ [CreateDirIfNotExist (jfrogProjectDir path)])")
  case (Some err)
  then show ?thesis using assms by (simp add: createProjectBuildConfigs_unfold)
next
  case None
  then show ?thesis using assms
    by (cases "MarshalConfigFile d (configFile d tech sid)")
       (auto simp: createProjectBuildConfigs_unfold deploymentWrite_def deploymentConfigBytes_def)
qed

lemma createBuildConfig_success:
  assumes "\<forall>x. CheckError d x = x"
      and "createBuildConfig E d pic h = (None, h')"
  shows "h' = h @ [CreateDirIfNotExist (jfrogProjectDir (projectPath pic)),
                   buildWrite d (projectPath pic)]"
proof -
  have bf: "buildConfigFile \<lparr>projectPath = projectPath pic, serverId = []\<rparr> = buildConfigFile pic"
    by (simp add: buildConfigFile_def)
  show ?thesis
  proof (cases "outcome E (h @ [CreateDirIfNotExist (jfrogProjectDir (projectPath pic))])")
    case (Some err)
    then show ?thesis using assms by (simp add: createBuildConfig_unfold)
  next
    case None
    then show ?thesis using assms
      by (cases "MarshalBuildConfigFile d (buildConfigFile pic)")
         (auto simp: createBuildConfig_unfold buildWrite_def buildConfigBytes_def bf)
  qed
qed

lemma forTechnologies_success:
  assumes "\<forall>x. CheckError d x = x"
      and "forTechnologies E d pic ts h = (None, h')"
  shows "\<exists>cs. h' = h @ cs \<and>
           filter isWriteFile cs = map (deploymentWrite d (projectPath pic) (serverId pic)) ts"
  using assms(2)
proof (induction ts arbitrary: h)
  case Nil
  then show ?case by simp
next
  case (Cons tech ts)
  from Cons.prems obtain h1 h2 where
    a: "createDefaultReposIfNeeded E tech (serverId pic) h = (None, h1)" and
    b: "createProjectBuildConfigs E d tech (projectPath pic) (serverId pic) h1 = (None, h2)" and
    c: "forTechnologies E d pic ts h2 = (None, h')"
    by (auto split: prod.splits option.splits)
  from Cons.IH [OF c] obtain cs where cs: "h' = h2 @ cs"
    "filter isWriteFile cs = map (deploymentWrite d (projectPath pic) (serverId pic)) ts"
    by blast
  show ?case
    using createDefaultReposIfNeeded_success [OF a]
      createProjectBuildConfigs_success [OF assms(1) b] cs
    by (simp add: deploymentWrite_def)
qed

lemma Run_success_writes:
  assumes "\<forall>x. CheckError d x = x"
      and "resolveServerId E pic h = (Inr pic1, h0)"
      and "detectTechnologies E pic1 h0 = (Inr ts, h1)"
      and "Run E d pic h = (None, q, h')"
  shows "filter isWriteFile (newCalls h h') =
         map (deploymentWrite d (projectPath pic) (serverId pic1)) ts @
         [buildWrite d (projectPath pic)]"
proof -
  from resolveServerId_cases [OF assms(2)] have path: "projectPath pic1 = projectPath pic"
    and h0: "h0 = h \<or> h0 = h @ [GetSpecificConfig [] True False]" by simp_all
  from detectTechnologies_trace [OF assms(3)]
  have h1: "h1 = h0 @ [DetectTechnologies (projectPath pic1) False False] \<or>
            h1 = h0 @ [DetectTechnologies (projectPath pic1) False False,
                       DetectTechnologies (projectPath pic1) False True]" .
  from h0 h1 obtain pre where pre: "h1 = h @ pre" "filter isWriteFile pre = []"
    by auto
  from assms(2,3,4) obtain h2 h3 where
    l: "forTechnologies E d pic1 ts h1 = (None, h2)" and
    b: "createBuildConfig E d pic1 h2 = (None, h3)" and
    fin: "h' = h3 @ [Println, PrintTable [] [] (createSummarizeMessage d ts), Println]"
    by (auto simp: Run_def invoke_def split: prod.splits option.splits)
  from forTechnologies_success [OF assms(1) l] obtain cs where cs: "h2 = h1 @ cs"
    "filter isWriteFile cs = map (deploymentWrite d (projectPath pic1) (serverId pic1)) ts"
    by blast
  from createBuildConfig_success [OF assms(1) b]
  have h3: "h3 = h2 @ [CreateDirIfNotExist (jfrogProjectDir (projectPath pic1)),
                       buildWrite d (projectPath pic1)]" .
  show ?thesis
    by (simp add: fin h3 cs pre path buildWrite_def)
qed

lemma applyWrites_simps [simp]:
  "applyWrites [] fs = fs"
  "applyWrites (WriteFile p b m # cs) fs = applyWrites cs (fs(p \<mapsto> b))"
  "\<not> isWriteFile c \<Longrightarrow> applyWrites (c # cs) fs = applyWrites cs fs"
  by (cases c; simp add: applyWrites_def)+

lemma applyWrites_filter: "applyWrites (filter isWriteFile cs) fs = applyWrites cs fs"
proof (induction cs arbitrary: fs)
  case Nil
  show ?case by simp
next
  case (Cons c cs)
  then show ?case by (cases c) (simp_all del: fun_upd_apply)
qed

lemma applyWrites_pairs:
  "applyWrites (map (\<lambda>(p, b). WriteFile p b m) kvs) fs = fs ++ map_of (rev kvs)"
proof (induction kvs arbitrary: fs)
  case Nil
  show ?case by simp
next
  case (Cons kv kvs)
  obtain p b where kv: "kv = (p, b)" by (cases kv)
  have "applyWrites (map (\<lambda>(p, b). WriteFile p b m) (kv # kvs)) fs =
        applyWrites (map (\<lambda>(p, b). WriteFile p b m) kvs) (fs(p \<mapsto> b))"
    by (simp add: kv)
  also have "\<dots> = fs(p \<mapsto> b) ++ map_of (rev kvs)"
    by (rule Cons.IH)
  also have "\<dots> = fs ++ map_of (rev (kv # kvs))"
    by (rule ext) (simp add: kv map_add_def split: option.split)
  finally show ?case .
qed

lemma map_of_functional:
  assumes "\<forall>k v v'. (k, v) \<in> set kvs \<and> (k, v') \<in> set kvs \<longrightarrow> v = v'"
  shows "map_of kvs k = Some v \<longleftrightarrow> (k, v) \<in> set kvs"
  using assms
proof (induction kvs)
  case Nil
  show ?case by simp
next
  case (Cons kv kvs)
  obtain a b where kv: "kv = (a, b)" by (cases kv)
  have ih: "map_of kvs k = Some v \<longleftrightarrow> (k, v) \<in> set kvs"
    using Cons.prems by (intro Cons.IH) auto
  show ?case
  proof (cases "k = a")
    case True
    then show ?thesis using Cons.prems kv by auto
  next
    case False
    then show ?thesis using ih kv by simp
  qed
qed

lemma map_of_same_set:
  assumes "\<forall>k v v'. (k, v) \<in> set xs \<and> (k, v') \<in> set xs \<longrightarrow> v = v'" "set xs = set ys"
  shows "map_of xs = map_of ys"
proof
  fix k
  show "map_of xs k = map_of ys k"
  proof (cases "map_of xs k")
    case None
    then have "k \<notin> fst ` set ys" using assms(2) by (simp add: map_of_eq_None_iff)
    then have "map_of ys k = None" by (simp add: map_of_eq_None_iff)
    then show ?thesis using None by simp
  next
    case (Some v)
    then have "(k, v) \<in> set ys" using map_of_functional [OF assms(1)] assms(2) by simp
    then have "map_of ys k = Some v"
      using map_of_functional [of ys k v] assms by simp
    then show ?thesis using Some by simp
  qed
qed


lemma map_add_twice: "(f ++ g) ++ g = f ++ g"
  by (rule ext) (simp add: map_add_def split: option.split)

lemma applyWrites_run:
  assumes "filter isWriteFile cs = map (deploymentWrite d path sid) ts @ [buildWrite d path]"
  shows "applyWrites cs fs =
         fs ++ (map_of (rev (map (\<lambda>t. (deploymentConfigPath d path t,
                                            deploymentConfigBytes d t sid)) ts)))
                 (buildConfigPath path \<mapsto> buildConfigBytes d path)"
proof -
  let ?kvs = "map (\<lambda>t. (deploymentConfigPath d path t, deploymentConfigBytes d t sid)) ts @
              [(buildConfigPath path, buildConfigBytes d path)]"
  have "filter isWriteFile cs = map (\<lambda>(p, b). WriteFile p b 420) ?kvs"
    by (simp add: assms deploymentWrite_def buildWrite_def)
  then have "applyWrites cs fs = applyWrites (map (\<lambda>(p, b). WriteFile p b 420) ?kvs) fs"
    using applyWrites_filter [of cs fs] by simp
  also have "\<dots> = fs ++ map_of (rev ?kvs)"
    by (rule applyWrites_pairs)
  finally show ?thesis by simp
qed

text \<open>
  C8. Two successful runs of the same command, with the same declarations, the same
  resolved server identifier and the same set of detected technologies (visited in
  any order, in any environment and after any history) write the same files with the
  same bytes: the writes of a run are, per detected technology, the file
  \<open>deploymentConfigPath\<close> with the bytes \<open>deploymentConfigBytes\<close>, which depend
  on the technology, the project path and the server identifier only, and then the
  build config.  When no two detected technologies share a config file, the second
  run leaves every file as the first run left it.
\<close>

theorem second_run_same_config_files:
  assumes "\<forall>x. CheckError d x = x"
      and "resolveServerId E1 pic h1 = (Inr pic1, k1)"
      and "detectTechnologies E1 pic1 k1 = (Inr ts1, l1)"
      and "Run E1 d pic h1 = (None, q1, h1')"
      and "resolveServerId E2 pic h2 = (Inr pic2, k2)"
      and "detectTechnologies E2 pic2 k2 = (Inr ts2, l2)"
      and "Run E2 d pic h2 = (None, q2, h2')"
      and "serverId pic1 = serverId pic2"
      and "set ts1 = set ts2"
  shows
   "filter isWriteFile (newCalls h1 h1') =
      map (deploymentWrite d (projectPath pic) (serverId pic1)) ts1 @
      [buildWrite d (projectPath pic)] \<and>
    filter isWriteFile (newCalls h2 h2') =
      map (deploymentWrite d (projectPath pic) (serverId pic1)) ts2 @
      [buildWrite d (projectPath pic)] \<and>
    set (filter isWriteFile (newCalls h1 h1')) = set (filter isWriteFile (newCalls h2 h2')) \<and>
    (inj_on (deploymentConfigPath d (projectPath pic)) (set ts1) \<longrightarrow>
       applyWrites (newCalls h2 h2') (applyWrites (newCalls h1 h1') fs) =
       applyWrites (newCalls h1 h1') fs)"
proof -
  let ?path = "projectPath pic" and ?sid = "serverId pic1"
  let ?kv = "\<lambda>t. (deploymentConfigPath d ?path t, deploymentConfigBytes d t ?sid)"
  have w1: "filter isWriteFile (newCalls h1 h1') =
      map (deploymentWrite d ?path ?sid) ts1 @ [buildWrite d ?path]"
    by (rule Run_success_writes [OF assms(1,2,3,4)])
  have w2: "filter isWriteFile (newCalls h2 h2') =
      map (deploymentWrite d ?path ?sid) ts2 @ [buildWrite d ?path]"
    using Run_success_writes [OF assms(1,5,6,7)] assms(8) by simp
  have same: "set (filter isWriteFile (newCalls h1 h1')) = set (filter isWriteFile (newCalls h2 h2'))"
    using assms(9) by (simp add: w1 w2)
  have files: "applyWrites (newCalls h2 h2') (applyWrites (newCalls h1 h1') fs) =
       applyWrites (newCalls h1 h1') fs"
    if inj: "inj_on (deploymentConfigPath d ?path) (set ts1)"
  proof -
    have fn: "\<forall>k v v'. (k, v) \<in> set (rev (map ?kv ts1)) \<and> (k, v') \<in> set (rev (map ?kv ts1))
                \<longrightarrow> v = v'"
      using inj by (auto dest: inj_onD)
    have "set (rev (map ?kv ts1)) = set (rev (map ?kv ts2))"
      using assms(9) by simp
    then have m: "map_of (rev (map ?kv ts1)) = map_of (rev (map ?kv ts2))"
      using fn by (rule map_of_same_set [rotated])
    let ?M = "(map_of (rev (map ?kv ts1)))(buildConfigPath ?path \<mapsto> buildConfigBytes d ?path)"
    have a1: "applyWrites (newCalls h1 h1') fs = fs ++ ?M"
      by (rule applyWrites_run [OF w1])
    have a2: "applyWrites (newCalls h2 h2') (fs ++ ?M) = (fs ++ ?M) ++ ?M"
      using applyWrites_run [OF w2, of "fs ++ ?M"] m by simp
    show ?thesis
      by (simp only: a1 a2 map_add_twice)
  qed
  from w1 w2 same files show ?thesis by blast
qed


lemma demo_writes:
  "deploymentWrite demoDecls ''/tmp/p/myapp'' ''local-server'' ''Maven'' =
     WriteFile ''/tmp/p/myapp/.jfrog/projects/maven.yaml'' mavenYaml 420"
  "deploymentWrite demoDecls ''/tmp/p/myapp'' ''local-server'' ''npm'' =
     WriteFile ''/tmp/p/myapp/.jfrog/projects/npm.yaml'' npmYaml 420"
  "buildWrite demoDecls ''/tmp/p/myapp'' =
     WriteFile ''/tmp/p/myapp/.jfrog/projects/build.yaml'' (buildYaml ''p'') 420"
  unfolding mavenYaml_def npmYaml_def buildYaml_def by code_simp+

lemma demo_paths:
  "deploymentConfigPath demoDecls ''/tmp/p/myapp'' ''Maven'' =
     ''/tmp/p/myapp/.jfrog/projects/maven.yaml''"
  "deploymentConfigPath demoDecls ''/tmp/p/myapp'' ''npm'' =
     ''/tmp/p/myapp/.jfrog/projects/npm.yaml''"
  by code_simp+

theorem second_run_same_config_files_witness:
  "fst (Run mavenAndNpm demoDecls demoCommand []) = None \<and>
   fst (Run mavenAndNpm demoDecls demoCommand
          (snd (snd (Run mavenAndNpm demoDecls demoCommand [])))) = None \<and>
   filter isWriteFile (newCalls [] (snd (snd (Run mavenAndNpm demoDecls demoCommand [])))) =
     [WriteFile ''/tmp/p/myapp/.jfrog/projects/maven.yaml'' mavenYaml 420,
      WriteFile ''/tmp/p/myapp/.jfrog/projects/npm.yaml'' npmYaml 420,
      WriteFile ''/tmp/p/myapp/.jfrog/projects/build.yaml'' (buildYaml ''p'') 420] \<and>
   filter isWriteFile
     (newCalls (snd (snd (Run mavenAndNpm demoDecls demoCommand [])))
        (snd (snd (Run mavenAndNpm demoDecls demoCommand
                     (snd (snd (Run mavenAndNpm demoDecls demoCommand []))))))) =
     [WriteFile ''/tmp/p/myapp/.jfrog/projects/npm.yaml'' npmYaml 420,
      WriteFile ''/tmp/p/myapp/.jfrog/projects/maven.yaml'' mavenYaml 420,
      WriteFile ''/tmp/p/myapp/.jfrog/projects/build.yaml'' (buildYaml ''p'') 420] \<and>
   applyWrites
     (newCalls (snd (snd (Run mavenAndNpm demoDecls demoCommand [])))
        (snd (snd (Run mavenAndNpm demoDecls demoCommand
                     (snd (snd (Run mavenAndNpm demoDecls demoCommand [])))))))
     (applyWrites (newCalls [] (snd (snd (Run mavenAndNpm demoDecls demoCommand [])))) Map.empty) =
   applyWrites (newCalls [] (snd (snd (Run mavenAndNpm demoDecls demoCommand [])))) Map.empty"
proof -
  define T1 where "T1 = snd (snd (Run mavenAndNpm demoDecls demoCommand []))"
  define T2 where "T2 = snd (snd (Run mavenAndNpm demoDecls demoCommand T1))"
  have ok1: "fst (Run mavenAndNpm demoDecls demoCommand []) = None"
    by code_simp
  have ok2: "fst (Run mavenAndNpm demoDecls demoCommand T1) = None"
    unfolding T1_def by code_simp
  have ne: "T1 \<noteq> []"
    unfolding T1_def by code_simp
  have run1: "Run mavenAndNpm demoDecls demoCommand [] =
              (None, fst (snd (Run mavenAndNpm demoDecls demoCommand [])), T1)"
    using ok1 unfolding T1_def by (metis prod.collapse)
  have run2: "Run mavenAndNpm demoDecls demoCommand T1 =
              (None, fst (snd (Run mavenAndNpm demoDecls demoCommand T1)), T2)"
    using ok2 unfolding T2_def by (metis prod.collapse)
  have res: "resolveServerId mavenAndNpm demoCommand h = (Inr demoCommand, h)" for h
    by (simp add: resolveServerId_def demoCommand_def)
  have det1: "detectTechnologies mavenAndNpm demoCommand [] =
              (Inr [''Maven'', ''npm''], [DetectTechnologies ''/tmp/p/myapp'' False False])"
    by (simp add: detectTechnologies_def mavenAndNpm_def demoCommand_def)
  have det2: "detectTechnologies mavenAndNpm demoCommand T1 =
              (Inr [''npm'', ''Maven''], T1 @ [DetectTechnologies ''/tmp/p/myapp'' False False])"
    using ne by (simp add: detectTechnologies_def mavenAndNpm_def demoCommand_def)
  have inj: "inj_on (deploymentConfigPath demoDecls (projectPath demoCommand))
               (set [''Maven'', ''npm''])"
    by (simp add: demoCommand_def demo_paths)
  note inst = second_run_same_config_files [OF demoDecls_CheckError res det1 run1 res det2 run2,
      of Map.empty]
  have "projectPath demoCommand = ''/tmp/p/myapp''" "serverId demoCommand = ''local-server''"
    by (simp_all add: demoCommand_def)
  with inst inj ok1 ok2 show ?thesis
    unfolding T1_def [symmetric] T2_def [symmetric]
    by (simp add: demo_writes insert_commute)
qed


end
